theory Spec2Isabelle
  imports Main "HOL-Library.Sublist" "HOL-Library.AList"
begin

section \<open>Data model (models/Image.ts)\<close>

text \<open>
  JavaScript strings are modelled as \<^typ>\<open>string\<close>: one \<^typ>\<open>char\<close> per code unit
  (code units below 256).  An optional property \<open>f?: T\<close> is a \<^typ>\<open>'a option\<close>;
  \<open>None\<close> is \<open>undefined\<close>.
\<close>

datatype quality_tier = standard | high | ultra

record Dimensions =
  width :: int
  height :: int

record StyleParams =
  style :: "string option"
  colorScheme :: "string option"
  mood :: "string option"
  modifiers :: "string list option"
  dimensions :: "Dimensions option"
  quality :: "quality_tier option"

text \<open>The object literal \<open>{}\<close>: every property absent.\<close>

definition emptyStyleParams :: StyleParams where
  "emptyStyleParams =
     \<lparr>style = None, colorScheme = None, mood = None, modifiers = None,
      dimensions = None, quality = None\<rparr>"

section \<open>Prompt composition (ImageGenerationService.buildEnhancedPrompt)\<close>

text \<open>\<open>Array.prototype.join(sep)\<close> on an array of strings.\<close>

fun join :: "string \<Rightarrow> string list \<Rightarrow> string" where
  "join sep [] = []"
| "join sep [x] = x"
| "join sep (x # y # ys) = x @ sep @ join sep (y # ys)"

text \<open>
  Truthiness of an optional string as tested by \<open>if (styleParams.style)\<close>:
  \<open>undefined\<close> and the empty string are both falsy.
\<close>

definition truthy :: "string option \<Rightarrow> bool" where
  "truthy v = (case v of None \<Rightarrow> False | Some s \<Rightarrow> s \<noteq> [])"

text \<open>
  The four conditional \<open>push\<close> statements of the source, each taking the array built
  so far and returning the array after the statement.
\<close>

definition pushStyle :: "StyleParams \<Rightarrow> string list \<Rightarrow> string list" where
  "pushStyle sp styleModifiers =
     (if truthy (style sp) then styleModifiers @ [''in '' @ the (style sp) @ '' style'']
      else styleModifiers)"

definition pushColorScheme :: "StyleParams \<Rightarrow> string list \<Rightarrow> string list" where
  "pushColorScheme sp styleModifiers =
     (if truthy (colorScheme sp)
      then styleModifiers @ [''with '' @ the (colorScheme sp) @ '' color scheme'']
      else styleModifiers)"

definition pushMood :: "StyleParams \<Rightarrow> string list \<Rightarrow> string list" where
  "pushMood sp styleModifiers =
     (if truthy (mood sp) then styleModifiers @ [the (mood sp) @ '' mood'']
      else styleModifiers)"

definition pushModifiers :: "StyleParams \<Rightarrow> string list \<Rightarrow> string list" where
  "pushModifiers sp styleModifiers =
     (case modifiers sp of
        None \<Rightarrow> styleModifiers
      | Some ms \<Rightarrow> if length ms > 0 then styleModifiers @ ms else styleModifiers)"

definition styleModifiersOf :: "StyleParams \<Rightarrow> string list" where
  "styleModifiersOf sp = pushModifiers sp (pushMood sp (pushColorScheme sp (pushStyle sp [])))"

definition buildEnhancedPrompt :: "string \<Rightarrow> StyleParams option \<Rightarrow> string" where
  "buildEnhancedPrompt basePrompt styleParams =
     (case styleParams of
        None \<Rightarrow> basePrompt
      | Some sp \<Rightarrow>
          (let styleModifiers = styleModifiersOf sp
           in if length styleModifiers > 0
              then basePrompt @ '', '' @ join '', '' styleModifiers
              else basePrompt))"

subsection \<open>The composition rule as the specification words it\<close>

text \<open>
  The clause list of the specification, read literally: a field that is set
  (not \<open>undefined\<close>) contributes its clause, a missing field is skipped.
\<close>

definition clausesWhenSet :: "StyleParams \<Rightarrow> string list" where
  "clausesWhenSet sp =
     (case style sp of None \<Rightarrow> [] | Some s \<Rightarrow> [''in '' @ s @ '' style'']) @
     (case colorScheme sp of None \<Rightarrow> [] | Some c \<Rightarrow> [''with '' @ c @ '' color scheme'']) @
     (case mood sp of None \<Rightarrow> [] | Some m \<Rightarrow> [m @ '' mood'']) @
     (case modifiers sp of None \<Rightarrow> [] | Some ms \<Rightarrow> ms)"

definition someFieldSet :: "StyleParams \<Rightarrow> bool" where
  "someFieldSet sp =
     (style sp \<noteq> None \<or> colorScheme sp \<noteq> None \<or> mood sp \<noteq> None \<or> modifiers sp \<noteq> None)"

text \<open>
  The same clause list where a field counts only when it is non-empty: an absent field
  and a field holding the empty string (or the empty array) are both skipped.
\<close>

definition nonEmptyField :: "'a list option \<Rightarrow> 'a list" where
  "nonEmptyField v = (case v of None \<Rightarrow> [] | Some x \<Rightarrow> x)"

definition clausesWhenNonEmpty :: "StyleParams \<Rightarrow> string list" where
  "clausesWhenNonEmpty sp =
     (if nonEmptyField (style sp) = [] then []
      else [''in '' @ nonEmptyField (style sp) @ '' style'']) @
     (if nonEmptyField (colorScheme sp) = [] then []
      else [''with '' @ nonEmptyField (colorScheme sp) @ '' color scheme'']) @
     (if nonEmptyField (mood sp) = [] then []
      else [nonEmptyField (mood sp) @ '' mood'']) @
     nonEmptyField (modifiers sp)"

definition someFieldNonEmpty :: "StyleParams \<Rightarrow> bool" where
  "someFieldNonEmpty sp =
     (nonEmptyField (style sp) \<noteq> [] \<or> nonEmptyField (colorScheme sp) \<noteq> [] \<or>
      nonEmptyField (mood sp) \<noteq> [] \<or> nonEmptyField (modifiers sp) \<noteq> [])"

text \<open>Comma-joining written as a fold: every clause after the first is preceded by \<open>", "\<close>.\<close>

definition commaJoined :: "string list \<Rightarrow> string" where
  "commaJoined cs = (case cs of [] \<Rightarrow> [] | c # rest \<Rightarrow> c @ concat (map (\<lambda>x. '', '' @ x) rest))"

section \<open>Thrown values, configuration and the world outside the process\<close>

text \<open>
  A value raised by \<open>throw\<close>: an \<open>Error\<close> object with its message, or any other
  value (\<open>error instanceof Error\<close> is false for it).
\<close>

datatype thrown = Error string | NotAnError

text \<open>The entries of config/config.ts that the modelled functions read.\<close>

record Config =
  imagesCollection :: string
  bucketName :: string
  publicUrlBase :: string
  imageModel :: string
  maxImagesPerUserPerDay :: nat
  defaultWidth :: int
  defaultHeight :: int

datatype image_status = generating | completed | failed

text \<open>
  A document of the images collection.  Properties that only one of the two writers sets
  are optional.  Times are milliseconds since the epoch.
\<close>

record ImageDoc =
  userId :: string
  prompt :: string
  styleParams :: "StyleParams option"
  gcsUrl :: "string option"
  gcsBucket :: "string option"
  gcsPath :: "string option"
  fileSize :: "nat option"
  docMimeType :: "string option"
  docDimensions :: "Dimensions option"
  status :: image_status
  errorMessage :: "string option"
  createdAt :: int
  updatedAt :: int

text \<open>An object of the storage bucket; bytes are numbers below 256.\<close>

record GcsObject =
  content :: "nat list"
  contentType :: string
  uploadedAt :: int
  customMetadata :: "(string \<times> string) list"
  isPublic :: bool

record UploadResult =
  publicUrl :: string
  bucket :: string
  path :: string
  sizeBytes :: nat
  mimeType :: string

record ImageGenerationResult =
  imageId :: string
  imageUrl :: string
  resDimensions :: Dimensions
  resFileSize :: nat
  resPrompt :: string
  resStyleParams :: "StyleParams option"

text \<open>Calls that leave the process, in the order they are made.\<close>

datatype ext_call =
    GeminiGenerateContent string string
  | GcsSave string
  | GcsMakePublic string
  | GcsGetMetadata string
  | FirestoreSet string string
  | FirestoreGet string string
  | FirestoreQuery string string string "nat option"

datatype log_level = Info | Warn | Err

type_synonym log_entry = "log_level \<times> string \<times> thrown option"

text \<open>
  Everything outside the process that the code reads or changes.
  \<^item> \<open>now\<close> is the clock (\<open>new Date()\<close>), \<open>localMidnight\<close> the instant
    \<open>setHours(0, 0, 0, 0)\<close> yields for it in the server's time zone.
  \<^item> \<open>uuids\<close> is the sequence \<open>uuidv4()\<close> will return; \<open>uuidsDrawn\<close> counts the draws.
  \<^item> \<open>firestore\<close> holds the documents, keyed by collection and id, in the order a query
    returns them; \<open>gcs\<close> holds the bucket's objects by path.
  \<^item> \<open>geminiOutcome\<close> is what the model call does: throw, or answer with its
    \<open>candidates\<close> property (possibly \<open>undefined\<close>).
  \<^item> The fault fields say which remote calls throw and with what.  A document write is
    made up to twice per attempt, so its faults are a script consumed one per call
    (an exhausted script means success).
\<close>

record World =
  now :: int
  localMidnight :: int
  uuids :: "nat \<Rightarrow> string"
  uuidsDrawn :: nat
  firestore :: "((string \<times> string) \<times> ImageDoc) list"
  gcs :: "(string \<times> GcsObject) list"
  geminiOutcome :: "thrown + string list option"
  gcsSaveFault :: "thrown option"
  gcsMakePublicFault :: "thrown option"
  gcsGetMetadataFault :: "thrown option"
  firestoreGetFault :: "thrown option"
  firestoreQueryFault :: "thrown option"
  firestoreSetFaults :: "thrown option list"
  calls :: "ext_call list"
  logs :: "log_entry list"

definition logger :: "log_level \<Rightarrow> string \<Rightarrow> thrown option \<Rightarrow> World \<Rightarrow> World" where
  "logger lvl msg detail w = w\<lparr>logs := logs w @ [(lvl, msg, detail)]\<rparr>"

definition called :: "ext_call \<Rightarrow> World \<Rightarrow> World" where
  "called c w = w\<lparr>calls := calls w @ [c]\<rparr>"

definition uuidv4 :: "World \<Rightarrow> string \<times> World" where
  "uuidv4 w = (uuids w (uuidsDrawn w), w\<lparr>uuidsDrawn := Suc (uuidsDrawn w)\<rparr>)"

section \<open>The remote services' client calls\<close>

text \<open>\<open>collection(c).doc(id).set(docData)\<close>: creates or replaces the document.\<close>

definition firestoreSet ::
  "string \<Rightarrow> string \<Rightarrow> ImageDoc \<Rightarrow> World \<Rightarrow> (thrown + unit) \<times> World" where
  "firestoreSet c docId docData w =
     (let w1 = called (FirestoreSet c docId) w
      in case firestoreSetFaults w1 of
           [] \<Rightarrow> (Inr (), w1\<lparr>firestore := AList.update (c, docId) docData (firestore w1)\<rparr>)
         | None # rest \<Rightarrow>
             (Inr (), w1\<lparr>firestoreSetFaults := rest,
                          firestore := AList.update (c, docId) docData (firestore w1)\<rparr>)
         | Some e # rest \<Rightarrow> (Inl e, w1\<lparr>firestoreSetFaults := rest\<rparr>))"

text \<open>\<open>collection(c).doc(id).get()\<close>; \<open>None\<close> when \<open>doc.exists\<close> is false.\<close>

definition firestoreGet ::
  "string \<Rightarrow> string \<Rightarrow> World \<Rightarrow> (thrown + ImageDoc option) \<times> World" where
  "firestoreGet c docId w =
     (let w1 = called (FirestoreGet c docId) w
      in case firestoreGetFault w1 of
           Some e \<Rightarrow> (Inl e, w1)
         | None \<Rightarrow> (Inr (map_of (firestore w1) (c, docId)), w1))"

text \<open>
  The string-valued properties a query can compare.  The service queries by
  \<open>userId\<close> only.
\<close>

definition docField :: "string \<Rightarrow> ImageDoc \<Rightarrow> string option" where
  "docField field d =
     (if field = ''userId'' then Some (userId d)
      else if field = ''prompt'' then Some (prompt d)
      else None)"

text \<open>
  \<open>collection(c).where(field, '==', v)\<close>, with \<open>.limit(n)\<close> when a limit is given:
  the first \<open>n\<close> matching documents in the store's order.
\<close>

definition firestoreQuery ::
  "string \<Rightarrow> string \<Rightarrow> string \<Rightarrow> nat option \<Rightarrow> World \<Rightarrow>
     (thrown + (string \<times> ImageDoc) list) \<times> World" where
  "firestoreQuery c field v lim w =
     (let w1 = called (FirestoreQuery c field v lim) w
      in case firestoreQueryFault w1 of
           Some e \<Rightarrow> (Inl e, w1)
         | None \<Rightarrow>
             (let matching =
                    map (\<lambda>kd. (snd (fst kd), snd kd))
                      (filter (\<lambda>kd. fst (fst kd) = c \<and> docField field (snd kd) = Some v)
                         (firestore w1))
              in (Inr (case lim of None \<Rightarrow> matching | Some n \<Rightarrow> take n matching), w1)))"

text \<open>\<open>file.save\<close>, \<open>file.makePublic\<close> and \<open>file.getMetadata\<close> of the bucket client.\<close>

definition gcsSave :: "string \<Rightarrow> GcsObject \<Rightarrow> World \<Rightarrow> (thrown + unit) \<times> World" where
  "gcsSave filePath obj w =
     (let w1 = called (GcsSave filePath) w
      in case gcsSaveFault w1 of
           Some e \<Rightarrow> (Inl e, w1)
         | None \<Rightarrow> (Inr (), w1\<lparr>gcs := AList.update filePath obj (gcs w1)\<rparr>))"

definition gcsMakePublic :: "string \<Rightarrow> World \<Rightarrow> (thrown + unit) \<times> World" where
  "gcsMakePublic filePath w =
     (let w1 = called (GcsMakePublic filePath) w
      in case gcsMakePublicFault w1 of
           Some e \<Rightarrow> (Inl e, w1)
         | None \<Rightarrow>
             (case map_of (gcs w1) filePath of
                None \<Rightarrow> (Inl (Error ''No such object''), w1)
              | Some obj \<Rightarrow>
                  (Inr (), w1\<lparr>gcs := AList.update filePath (obj\<lparr>isPublic := True\<rparr>) (gcs w1)\<rparr>)))"

text \<open>Only the \<open>size\<close> of the metadata is read by the code.\<close>

definition gcsGetMetadata :: "string \<Rightarrow> World \<Rightarrow> (thrown + nat) \<times> World" where
  "gcsGetMetadata filePath w =
     (let w1 = called (GcsGetMetadata filePath) w
      in case gcsGetMetadataFault w1 of
           Some e \<Rightarrow> (Inl e, w1)
         | None \<Rightarrow>
             (case map_of (gcs w1) filePath of
                None \<Rightarrow> (Inl (Error ''No such object''), w1)
              | Some obj \<Rightarrow> (Inr (length (content obj)), w1)))"

text \<open>\<open>model.generateContent(prompt)\<close> followed by \<open>result.response\<close>.\<close>

definition geminiGenerateContent ::
  "string \<Rightarrow> string \<Rightarrow> World \<Rightarrow> (thrown + string list option) \<times> World" where
  "geminiGenerateContent model enhancedPrompt w =
     (geminiOutcome w, called (GeminiGenerateContent model enhancedPrompt) w)"

section \<open>GCPDatabaseService\<close>

definition create ::
  "string \<Rightarrow> string \<Rightarrow> ImageDoc \<Rightarrow> World \<Rightarrow> (thrown + unit) \<times> World" where
  "create collectionName docId docData w =
     (case firestoreSet collectionName docId
             (docData\<lparr>createdAt := now w, updatedAt := now w\<rparr>) w of
        (Inr u, w1) \<Rightarrow>
          (Inr (), logger Info (''Document created in '' @ collectionName) None w1)
      | (Inl e, w1) \<Rightarrow>
          (Inl e, logger Err (''Failed to create document in '' @ collectionName) (Some e) w1))"

definition findById ::
  "string \<Rightarrow> string \<Rightarrow> World \<Rightarrow> (thrown + (string \<times> ImageDoc) option) \<times> World" where
  "findById collectionName docId w =
     (case firestoreGet collectionName docId w of
        (Inr None, w1) \<Rightarrow> (Inr None, w1)
      | (Inr (Some d), w1) \<Rightarrow> (Inr (Some (docId, d)), w1)
      | (Inl e, w1) \<Rightarrow>
          (Inl e, logger Err (''Failed to find document in '' @ collectionName) (Some e) w1))"

definition findMany ::
  "string \<Rightarrow> string \<Rightarrow> string \<Rightarrow> nat \<Rightarrow> World \<Rightarrow>
     (thrown + (string \<times> ImageDoc) list) \<times> World" where
  "findMany collectionName field v limit w =
     (case firestoreQuery collectionName field v (if limit \<noteq> 0 then Some limit else None) w of
        (Inr ds, w1) \<Rightarrow> (Inr ds, w1)
      | (Inl e, w1) \<Rightarrow>
          (Inl e, logger Err (''Failed to find documents in '' @ collectionName) (Some e) w1))"

section \<open>GCPStorageService\<close>

subsection \<open>Runtime functions the service calls\<close>

text \<open>
  \<open>path.extname\<close>: the part of the last path segment from its last dot on; empty when
  the segment has no dot, starts with its only dot, or is \<open>..\<close>.
\<close>

definition lastSegment :: "string \<Rightarrow> string" where
  "lastSegment p =
     rev (takeWhile (\<lambda>c. c \<noteq> CHR ''/'') (dropWhile (\<lambda>c. c = CHR ''/'') (rev p)))"

definition extname :: "string \<Rightarrow> string" where
  "extname p =
     (let b = lastSegment p;
          ext = rev (takeWhile (\<lambda>c. c \<noteq> CHR ''.'') (rev b));
          stem = rev (drop 1 (dropWhile (\<lambda>c. c \<noteq> CHR ''.'') (rev b)))
      in if CHR ''.'' \<notin> set b \<or> stem = [] \<or> b = ''..'' then [] else CHR ''.'' # ext)"

text \<open>
  \<open>Buffer.from(s, 'base64')\<close>.  The decoder reads the standard and the URL-safe alphabet,
  skips every other character, stops at the first \<open>=\<close> and drops an incomplete final
  group's spare bits.
\<close>

definition unbase64 :: "char \<Rightarrow> nat option" where
  "unbase64 c =
     (let n = (of_char c :: nat)
      in if 65 \<le> n \<and> n \<le> 90 then Some (n - 65)
         else if 97 \<le> n \<and> n \<le> 122 then Some (n - 71)
         else if 48 \<le> n \<and> n \<le> 57 then Some (n + 4)
         else if c = CHR ''+'' \<or> c = CHR ''-'' then Some 62
         else if c = CHR ''/'' \<or> c = CHR ''_'' then Some 63
         else None)"

fun sextetsToBytes :: "nat list \<Rightarrow> nat list" where
  "sextetsToBytes (a # b # c # d # rest) =
     (a * 4 + b div 16) # ((b mod 16) * 16 + c div 4) # ((c mod 4) * 64 + d) #
       sextetsToBytes rest"
| "sextetsToBytes [a, b, c] = [a * 4 + b div 16, (b mod 16) * 16 + c div 4]"
| "sextetsToBytes [a, b] = [a * 4 + b div 16]"
| "sextetsToBytes [a] = []"
| "sextetsToBytes [] = []"

definition bufferFromBase64 :: "string \<Rightarrow> nat list" where
  "bufferFromBase64 s =
     sextetsToBytes (List.map_filter unbase64 (takeWhile (\<lambda>c. c \<noteq> CHR ''='') s))"

text \<open>
  \<open>base64Data.match(/^data:([^;]+);base64,(.+)$/)\<close>, returning the two groups.
  Group 1 cannot contain \<open>;\<close> and is followed by one, so it is the run of characters
  up to the first \<open>;\<close> after the prefix; group 2 is the rest of the input, which must
  be non-empty and free of line terminators (\<open>.\<close> does not match them).
\<close>

definition lineTerminator :: "char \<Rightarrow> bool" where
  "lineTerminator c = (c = CHR 0x0A \<or> c = CHR 0x0D)"

definition matchDataUrl :: "string \<Rightarrow> (string \<times> string) option" where
  "matchDataUrl s =
     (if take 5 s = ''data:'' then
        (let r = drop 5 s;
             g1 = takeWhile (\<lambda>c. c \<noteq> CHR '';'') r;
             t = dropWhile (\<lambda>c. c \<noteq> CHR '';'') r;
             g2 = drop 8 t
         in if g1 \<noteq> [] \<and> take 8 t = '';base64,'' \<and> g2 \<noteq> [] \<and> \<not> list_ex lineTerminator g2
            then Some (g1, g2) else None)
      else None)"

subsection \<open>uploadFile and uploadBase64Image\<close>

text \<open>
  The object spread \<open>{...base, ...extra}\<close> on string-keyed properties.  The upload
  time of an object is kept as a field of its own rather than as an ISO string among them.
\<close>

definition spread :: "(string \<times> string) list \<Rightarrow> (string \<times> string) list \<Rightarrow> (string \<times> string) list" where
  "spread base extra = foldl (\<lambda>acc kv. AList.update (fst kv) (snd kv) acc) base extra"

text \<open>
  The three awaited bucket calls of \<open>uploadFile\<close>; the first one that throws ends the
  \<open>try\<close> block.
\<close>

definition saveAndPublish ::
  "string \<Rightarrow> GcsObject \<Rightarrow> World \<Rightarrow> (thrown + nat) \<times> World" where
  "saveAndPublish filePath obj w =
     (case gcsSave filePath obj w of
        (Inl e, w1) \<Rightarrow> (Inl e, w1)
      | (Inr u, w1) \<Rightarrow>
          (case gcsMakePublic filePath w1 of
             (Inl e, w2) \<Rightarrow> (Inl e, w2)
           | (Inr u', w2) \<Rightarrow> gcsGetMetadata filePath w2))"

text \<open>
  \<open>path.extname(fileName) || '.png'\<close> and the template
  \<open>users/${userId}/images/${uniqueFileName}\<close>.
\<close>

definition fileExtensionOf :: "string \<Rightarrow> string" where
  "fileExtensionOf fileName = (if extname fileName \<noteq> [] then extname fileName else ''.png'')"

definition userImagePath :: "string \<Rightarrow> string \<Rightarrow> string" where
  "userImagePath uid uniqueFileName = ''users/'' @ uid @ ''/images/'' @ uniqueFileName"

definition uploadFile ::
  "Config \<Rightarrow> nat list \<Rightarrow> string \<Rightarrow> string \<Rightarrow> string \<Rightarrow> (string \<times> string) list option \<Rightarrow>
     World \<Rightarrow> (thrown + UploadResult) \<times> World" where
  "uploadFile cfg buffer fileName mime uid metadata w =
     (let fileExtension = fileExtensionOf fileName;
          (u, w1) = uuidv4 w;
          uniqueFileName = u @ fileExtension;
          filePath = userImagePath uid uniqueFileName;
          obj = \<lparr>content = buffer, contentType = mime, uploadedAt = now w1,
                 customMetadata =
                   spread [(''userId'', uid)] (case metadata of None \<Rightarrow> [] | Some m \<Rightarrow> m),
                 isPublic = True\<rparr>
      in case saveAndPublish filePath obj w1 of
           (Inr sz, w2) \<Rightarrow>
             (Inr \<lparr>publicUrl = publicUrlBase cfg @ filePath, bucket = bucketName cfg,
                   path = filePath, sizeBytes = sz, mimeType = mime\<rparr>,
              logger Info ''File uploaded to GCS'' None w2)
         | (Inl e, w2) \<Rightarrow>
             (Inl (Error ''File upload failed''),
              logger Err ''Failed to upload file to GCS'' (Some e) w2))"

text \<open>The MIME type and the Base64 text that \<open>uploadBase64Image\<close> extracts from its input.\<close>

definition splitBase64Data :: "string \<Rightarrow> string \<times> string" where
  "splitBase64Data base64Data =
     (if take 5 base64Data = ''data:'' then
        (case matchDataUrl base64Data of
           Some (g1, g2) \<Rightarrow> (if g1 \<noteq> [] then g1 else ''image/png'', if g2 \<noteq> [] then g2 else [])
         | None \<Rightarrow> (''image/png'', base64Data))
      else (''image/png'', base64Data))"

definition uploadBase64Image ::
  "Config \<Rightarrow> string \<Rightarrow> string \<Rightarrow> string \<Rightarrow> (string \<times> string) list option \<Rightarrow>
     World \<Rightarrow> (thrown + UploadResult) \<times> World" where
  "uploadBase64Image cfg base64Data fileName uid metadata w =
     (let (mime, base64Content) = splitBase64Data base64Data;
          buffer = bufferFromBase64 base64Content
      in case uploadFile cfg buffer fileName mime uid metadata w of
           (Inr r, w1) \<Rightarrow> (Inr r, w1)
         | (Inl e, w1) \<Rightarrow>
             (Inl (Error ''Base64 image upload failed''),
              logger Err ''Failed to upload Base64 image to GCS'' (Some e) w1))"

section \<open>ImageGenerationService\<close>

definition placeholderImageBase64 :: string where
  "placeholderImageBase64 =
     ''iVBORw0KGgoAAAANSUhEUgAAAAEAAAABCAYAAAAfFcSJAAAADUlEQVR42mNk+M9QDwADhgGAWjR9awAAAABJRU5ErkJggg==''"

text \<open>\<open>response.candidates && response.candidates.length > 0\<close>\<close>

definition hasCandidates :: "string list option \<Rightarrow> bool" where
  "hasCandidates cands = (case cands of None \<Rightarrow> False | Some cs \<Rightarrow> length cs > 0)"

text \<open>
  \<open>styleParams?.dimensions?.width || defaultWidth\<close> and the same for the height:
  an absent and a zero value both fall back to the default.
\<close>

definition effectiveDimensions :: "Config \<Rightarrow> StyleParams option \<Rightarrow> Dimensions" where
  "effectiveDimensions cfg sp =
     (case sp of
        None \<Rightarrow> \<lparr>width = defaultWidth cfg, height = defaultHeight cfg\<rparr>
      | Some p \<Rightarrow>
          (case dimensions p of
             None \<Rightarrow> \<lparr>width = defaultWidth cfg, height = defaultHeight cfg\<rparr>
           | Some d \<Rightarrow>
               \<lparr>width = (if width d \<noteq> 0 then width d else defaultWidth cfg),
                height = (if height d \<noteq> 0 then height d else defaultHeight cfg)\<rparr>))"

definition completedDoc ::
  "string \<Rightarrow> string \<Rightarrow> StyleParams option \<Rightarrow> UploadResult \<Rightarrow> Dimensions \<Rightarrow> int \<Rightarrow> ImageDoc" where
  "completedDoc uid p sp uploadResult dims t =
     \<lparr>userId = uid, prompt = p, styleParams = sp,
      gcsUrl = Some (publicUrl uploadResult), gcsBucket = Some (bucket uploadResult),
      gcsPath = Some (path uploadResult), fileSize = Some (sizeBytes uploadResult),
      docMimeType = Some (mimeType uploadResult), docDimensions = Some dims,
      status = completed, errorMessage = None, createdAt = t, updatedAt = t\<rparr>"

text \<open>\<open>error instanceof Error ? error.message : 'Unknown error'\<close>\<close>

definition errorMessageOf :: "thrown \<Rightarrow> string" where
  "errorMessageOf e = (case e of Error m \<Rightarrow> m | NotAnError \<Rightarrow> ''Unknown error'')"

definition failedDoc :: "string \<Rightarrow> string \<Rightarrow> StyleParams option \<Rightarrow> thrown \<Rightarrow> int \<Rightarrow> ImageDoc" where
  "failedDoc uid p sp e t =
     \<lparr>userId = uid, prompt = p, styleParams = sp,
      gcsUrl = None, gcsBucket = None, gcsPath = None, fileSize = None,
      docMimeType = None, docDimensions = None,
      status = failed, errorMessage = Some (errorMessageOf e), createdAt = t, updatedAt = t\<rparr>"

text \<open>The file name \<open>generated-${imageId}.png\<close> under which the image is uploaded.\<close>

definition generatedFileName :: "string \<Rightarrow> string" where
  "generatedFileName imgId = ''generated-'' @ imgId @ ''.png''"

text \<open>The \<open>try\<close> block of \<open>generateImage\<close>; \<open>Inl\<close> is the value that reaches \<open>catch\<close>.\<close>

definition generateImage_try ::
  "Config \<Rightarrow> string \<Rightarrow> string \<Rightarrow> string \<Rightarrow> StyleParams option \<Rightarrow> World \<Rightarrow>
     (thrown + ImageGenerationResult) \<times> World" where
  "generateImage_try cfg imgId uid p sp w =
     (let w1 = logger Info ''Starting image generation'' None w;
          enhancedPrompt = buildEnhancedPrompt p sp;
          w2 = logger Info ''Enhanced prompt built'' None w1
      in case geminiGenerateContent (imageModel cfg) enhancedPrompt w2 of
           (Inl e, w3) \<Rightarrow> (Inl e, w3)
         | (Inr cands, w3) \<Rightarrow>
             if hasCandidates cands then
               (let w4 = logger Warn
                           ''Using placeholder image data extraction - update for production''
                           None w3;
                    imageBase64 = placeholderImageBase64
                in case uploadBase64Image cfg imageBase64 (generatedFileName imgId) uid
                          (Some [(''prompt'', take 100 p), (''imageId'', imgId)]) w4 of
                     (Inl e, w5) \<Rightarrow> (Inl e, w5)
                   | (Inr uploadResult, w5) \<Rightarrow>
                       (let dims = effectiveDimensions cfg sp
                        in case create (imagesCollection cfg) imgId
                                  (completedDoc uid p sp uploadResult dims (now w5)) w5 of
                             (Inl e, w6) \<Rightarrow> (Inl e, w6)
                           | (Inr u, w6) \<Rightarrow>
                               (Inr \<lparr>imageId = imgId, imageUrl = publicUrl uploadResult,
                                     resDimensions = dims,
                                     resFileSize = sizeBytes uploadResult,
                                     resPrompt = p, resStyleParams = sp\<rparr>,
                                logger Info ''Image generation completed successfully''
                                  None w6)))
             else (Inl (Error ''No image generated from Gemini API''), w3))"

text \<open>The \<open>catch\<close> block: the best-effort failure record, then the generic error.\<close>

definition generateImage_catch ::
  "Config \<Rightarrow> string \<Rightarrow> string \<Rightarrow> string \<Rightarrow> StyleParams option \<Rightarrow> thrown \<Rightarrow> World \<Rightarrow>
     (thrown + ImageGenerationResult) \<times> World" where
  "generateImage_catch cfg imgId uid p sp e w =
     (let w1 = logger Err ''Image generation failed'' (Some e) w
      in case create (imagesCollection cfg) imgId (failedDoc uid p sp e (now w1)) w1 of
           (Inr u, w2) \<Rightarrow> (Inl (Error ''Image generation failed''), w2)
         | (Inl dbError, w2) \<Rightarrow>
             (Inl (Error ''Image generation failed''),
              logger Err ''Failed to save error record to database'' (Some dbError) w2))"

definition generateImage ::
  "Config \<Rightarrow> string \<Rightarrow> string \<Rightarrow> StyleParams option \<Rightarrow> World \<Rightarrow>
     (thrown + ImageGenerationResult) \<times> World" where
  "generateImage cfg uid p sp w =
     (let (imgId, w0) = uuidv4 w
      in case generateImage_try cfg imgId uid p sp w0 of
           (Inr r, w1) \<Rightarrow> (Inr r, w1)
         | (Inl e, w1) \<Rightarrow> generateImage_catch cfg imgId uid p sp e w1)"

definition hasReachedDailyLimit :: "Config \<Rightarrow> string \<Rightarrow> World \<Rightarrow> bool \<times> World" where
  "hasReachedDailyLimit cfg uid w =
     (let today = localMidnight w
      in case findMany (imagesCollection cfg) ''userId'' uid
                (maxImagesPerUserPerDay cfg + 1) w of
           (Inr images, w1) \<Rightarrow>
             (let todayImages = filter (\<lambda>img. createdAt (snd img) \<ge> today) images;
                  hasReached = (length todayImages \<ge> maxImagesPerUserPerDay cfg)
              in (hasReached, logger Info ''Checked daily generation limit'' None w1))
         | (Inl e, w1) \<Rightarrow> (False, logger Err ''Failed to check daily limit'' (Some e) w1))"

section \<open>imageController\<close>

record Request =
  reqUserId :: "string option"
  bodyPrompt :: "string option"
  bodyStyleParams :: "StyleParams option"
  paramImageId :: string

datatype response_body =
    Failure string
  | Generated string string string "StyleParams option" Dimensions int
  | Found string ImageDoc

record Response =
  statusCode :: nat
  body :: response_body

text \<open>\<open>String.prototype.trim\<close>, on the white space among the code units below 256.\<close>

definition isWhiteSpace :: "char \<Rightarrow> bool" where
  "isWhiteSpace c = ((of_char c :: nat) \<in> {9, 10, 11, 12, 13, 32, 160})"

definition trim :: "string \<Rightarrow> string" where
  "trim s = rev (dropWhile isWhiteSpace (rev (dropWhile isWhiteSpace s)))"

text \<open>\<open>!userId\<close> for \<open>req.user?.id\<close>: true when there is no user or the id is empty.\<close>

definition noUserId :: "string option \<Rightarrow> bool" where
  "noUserId u = (case u of None \<Rightarrow> True | Some i \<Rightarrow> i = [])"

definition respond :: "nat \<Rightarrow> string \<Rightarrow> Response" where
  "respond code msg = \<lparr>statusCode = code, body = Failure msg\<rparr>"

text \<open>
  The handler of \<open>POST /generate/image\<close>.  When the body has no prompt,
  \<open>prompt.substring\<close> throws a \<open>TypeError\<close>, which the handler's \<open>catch\<close> answers.
\<close>

definition imageController_generateImage :: "Config \<Rightarrow> Request \<Rightarrow> World \<Rightarrow> Response \<times> World" where
  "imageController_generateImage cfg req w =
     (if noUserId (reqUserId req) then (respond 401 ''User not authenticated'', w)
      else
        (let uid = the (reqUserId req)
         in case bodyPrompt req of
              None \<Rightarrow>
                (respond 500 ''Image generation failed. Please try again.'',
                 logger Err ''Image generation failed''
                   (Some (Error ''Cannot read properties of undefined'')) w)
            | Some p \<Rightarrow>
                (let w1 = logger Info ''Image generation request received'' None w
                 in if trim p = [] then (respond 400 ''Prompt is required'', w1)
                    else
                      (case hasReachedDailyLimit cfg uid w1 of
                         (hasReachedLimit, w2) \<Rightarrow>
                           if hasReachedLimit then
                             (respond 429
                                ''Daily image generation limit reached. Please try again tomorrow.'',
                              logger Warn ''User reached daily generation limit'' None w2)
                           else
                             (case generateImage cfg uid p (bodyStyleParams req) w2 of
                                (Inr result, w3) \<Rightarrow>
                                  (\<lparr>statusCode = 201,
                                    body = Generated (imageId result) (imageUrl result)
                                             (resPrompt result) (resStyleParams result)
                                             (resDimensions result) (now w3)\<rparr>,
                                   logger Info ''Image generated successfully'' None w3)
                              | (Inl e, w3) \<Rightarrow>
                                  (respond 500 ''Image generation failed. Please try again.'',
                                   logger Err ''Image generation failed'' (Some e) w3))))))"

text \<open>The handler of \<open>GET /images/:imageId\<close>; \<open>res.json\<close> alone answers with status 200.\<close>

definition getImageById :: "Request \<Rightarrow> World \<Rightarrow> Response \<times> World" where
  "getImageById req w =
     (if noUserId (reqUserId req) then (respond 401 ''User not authenticated'', w)
      else
        (let uid = the (reqUserId req)
         in case findById ''images'' (paramImageId req) w of
              (Inl e, w1) \<Rightarrow>
                (respond 500 ''Failed to retrieve image'',
                 logger Err ''Failed to retrieve image'' (Some e) w1)
            | (Inr None, w1) \<Rightarrow> (respond 404 ''Image not found'', w1)
            | (Inr (Some (docId, img)), w1) \<Rightarrow>
                if userId img \<noteq> uid then
                  (respond 403 ''Forbidden. You do not have access to this image.'', w1)
                else
                  (\<lparr>statusCode = 200, body = Found docId img\<rparr>,
                   logger Info ''Image retrieved'' None w1)))"

section \<open>Vocabulary of the properties\<close>

text \<open>The records of a user in the images collection, and those created today.\<close>

definition userImages :: "Config \<Rightarrow> string \<Rightarrow> World \<Rightarrow> (string \<times> ImageDoc) list" where
  "userImages cfg uid w =
     map (\<lambda>kd. (snd (fst kd), snd kd))
       (filter (\<lambda>kd. fst (fst kd) = imagesCollection cfg \<and> userId (snd kd) = uid) (firestore w))"

definition createdToday :: "World \<Rightarrow> string \<times> ImageDoc \<Rightarrow> bool" where
  "createdToday w img = (localMidnight w \<le> createdAt (snd img))"

definition recordsToday :: "Config \<Rightarrow> string \<Rightarrow> World \<Rightarrow> (string \<times> ImageDoc) list" where
  "recordsToday cfg uid w = filter (createdToday w) (userImages cfg uid w)"

text \<open>
  The records the daily-limit check fetches for a user when its read succeeds (the first
  \<open>limit + 1\<close> of the user's records in the store's order), and those of them that
  were created today.
\<close>

definition fetchedRecords :: "Config \<Rightarrow> string \<Rightarrow> World \<Rightarrow> (string \<times> ImageDoc) list" where
  "fetchedRecords cfg uid w = take (maxImagesPerUserPerDay cfg + 1) (userImages cfg uid w)"

definition fetchedToday :: "Config \<Rightarrow> string \<Rightarrow> World \<Rightarrow> (string \<times> ImageDoc) list" where
  "fetchedToday cfg uid w = filter (createdToday w) (fetchedRecords cfg uid w)"

text \<open>The bytes and the content type stored in the bucket under a path.\<close>

definition storedBytes :: "World \<Rightarrow> string \<Rightarrow> nat list option" where
  "storedBytes w p = map_option content (map_of (gcs w) p)"

definition storedContentType :: "World \<Rightarrow> string \<Rightarrow> string option" where
  "storedContentType w p = map_option contentType (map_of (gcs w) p)"

subsection \<open>Which step of an attempt fails\<close>

text \<open>
  The generation step fails when the model call throws or answers without candidates;
  the upload step fails when one of the three bucket calls throws.
\<close>

definition generationFails :: "World \<Rightarrow> bool" where
  "generationFails w = (case geminiOutcome w of Inl e \<Rightarrow> True | Inr cands \<Rightarrow> \<not> hasCandidates cands)"

definition uploadFails :: "World \<Rightarrow> bool" where
  "uploadFails w =
     (gcsSaveFault w \<noteq> None \<or> gcsMakePublicFault w \<noteq> None \<or> gcsGetMetadataFault w \<noteq> None)"

text \<open>The value that reaches the \<open>catch\<close> block when generation or upload fails.\<close>

definition primaryFailure :: "World \<Rightarrow> thrown" where
  "primaryFailure w =
     (case geminiOutcome w of
        Inl e \<Rightarrow> e
      | Inr cands \<Rightarrow>
          if hasCandidates cands then Error ''Base64 image upload failed''
          else Error ''No image generated from Gemini API'')"

text \<open>The id that the next call of \<open>uuidv4()\<close> returns.\<close>

definition nextUuid :: "World \<Rightarrow> string" where
  "nextUuid w = uuids w (uuidsDrawn w)"

text \<open>
  The id drawn at the start of an attempt that begins in world \<open>w\<close>, and the path of
  the attempt's artifact, which is named by the second id drawn.
\<close>

definition attemptId :: "World \<Rightarrow> string" where
  "attemptId w = nextUuid w"

definition artifactPath :: "string \<Rightarrow> World \<Rightarrow> string" where
  "artifactPath uid w = userImagePath uid (uuids w (Suc (uuidsDrawn w)) @ ''.png'')"

definition isFirestoreSet :: "ext_call \<Rightarrow> bool" where
  "isFirestoreSet c = (case c of FirestoreSet col i \<Rightarrow> True | _ \<Rightarrow> False)"

text \<open>The document writes among the calls made so far.\<close>

definition documentWrites :: "World \<Rightarrow> ext_call list" where
  "documentWrites w = filter isFirestoreSet (calls w)"

subsection \<open>Concrete configuration and worlds for the examples\<close>

definition exampleConfig :: Config where
  "exampleConfig =
     \<lparr>imagesCollection = ''images'', bucketName = ''pixology-images'',
      publicUrlBase = ''https://storage.googleapis.com/pixology-images/'',
      imageModel = ''gemini-2.5-flash-image-preview'',
      maxImagesPerUserPerDay = 2, defaultWidth = 1024, defaultHeight = 1024\<rparr>"

text \<open>A world with an empty store in which every remote call succeeds.\<close>

definition quietWorld :: World where
  "quietWorld =
     \<lparr>now = 86500000, localMidnight = 86400000,
      uuids = (\<lambda>n. if n = 0 then ''uuid-a'' else if n = 1 then ''uuid-b'' else ''uuid-c''),
      uuidsDrawn = 0, firestore = [], gcs = [],
      geminiOutcome = Inr (Some [''candidate'']),
      gcsSaveFault = None, gcsMakePublicFault = None, gcsGetMetadataFault = None,
      firestoreGetFault = None, firestoreQueryFault = None, firestoreSetFaults = [],
      calls = [], logs = []\<rparr>"

text \<open>A failed record of user \<open>alice\<close>, created at the given instant.\<close>

definition aliceDoc :: "int \<Rightarrow> ImageDoc" where
  "aliceDoc t = failedDoc ''alice'' ''sunset'' None (Error ''No image generated from Gemini API'') t"

text \<open>
  Alice has three records from the day before, which the store returns first, and two
  from today.
\<close>

definition aliceStore :: "((string \<times> string) \<times> ImageDoc) list" where
  "aliceStore =
     [((''images'', ''a1''), aliceDoc 100), ((''images'', ''a2''), aliceDoc 200),
      ((''images'', ''a3''), aliceDoc 300),
      ((''images'', ''b1''), aliceDoc 86400001), ((''images'', ''b2''), aliceDoc 86400002)]"

text \<open>Worlds in which one remote service is down.\<close>

definition modelDownWorld :: World where
  "modelDownWorld =
     quietWorld\<lparr>geminiOutcome := Inl (Error ''429 quota exhausted for project pixology''),
                firestoreSetFaults := [Some (Error ''14 UNAVAILABLE'')]\<rparr>"

definition bucketDownWorld :: World where
  "bucketDownWorld = quietWorld\<lparr>gcsSaveFault := Some (Error ''bucket not found'')\<rparr>"

text \<open>The document store rejects the first write and accepts the second.\<close>

definition storeFlakyWorld :: World where
  "storeFlakyWorld = quietWorld\<lparr>firestoreSetFaults := [Some (Error ''14 UNAVAILABLE''), None]\<rparr>"

text \<open>The document store rejects both writes of an attempt.\<close>

definition storeDownWorld :: World where
  "storeDownWorld =
     quietWorld\<lparr>firestoreSetFaults :=
                  [Some (Error ''14 UNAVAILABLE''), Some (Error ''14 UNAVAILABLE'')]\<rparr>"

text \<open>Alice's store with the older records, and with today's two records only.\<close>

definition aliceWorld :: World where
  "aliceWorld = quietWorld\<lparr>firestore := aliceStore\<rparr>"

definition aliceTodayWorld :: World where
  "aliceTodayWorld = quietWorld\<lparr>firestore := drop 3 aliceStore\<rparr>"

text \<open>Alice's two records of today, in a world where the read of the store fails.\<close>

definition aliceTodayUnreadableWorld :: World where
  "aliceTodayUnreadableWorld =
     aliceTodayWorld\<lparr>firestoreQueryFault := Some (Error ''14 UNAVAILABLE'')\<rparr>"

definition sunsetRequest :: "string \<Rightarrow> Request" where
  "sunsetRequest uid =
     \<lparr>reqUserId = Some uid, bodyPrompt = Some ''sunset'', bodyStyleParams = None,
      paramImageId = ''a1''\<rparr>"

section \<open>Properties of the prompt composer\<close>

lemma join_concat:
  "join sep cs = (case cs of [] \<Rightarrow> [] | c # rest \<Rightarrow> c @ concat (map (\<lambda>x. sep @ x) rest))"
  by (induction sep cs rule: join.induct) simp_all

lemma join_commaJoined: "join '', '' cs = commaJoined cs"
  by (simp add: join_concat commaJoined_def)

lemma styleModifiersOf_clauses: "styleModifiersOf sp = clausesWhenNonEmpty sp"
  by (cases "style sp"; cases "colorScheme sp"; cases "mood sp"; cases "modifiers sp")
     (simp_all add: styleModifiersOf_def pushStyle_def pushColorScheme_def pushMood_def
        pushModifiers_def clausesWhenNonEmpty_def nonEmptyField_def truthy_def)

lemma clauses_empty_iff: "clausesWhenNonEmpty sp = [] \<longleftrightarrow> \<not> someFieldNonEmpty sp"
  by (simp add: clausesWhenNonEmpty_def someFieldNonEmpty_def)

lemma buildEnhancedPrompt_prefix: "prefix p (buildEnhancedPrompt p sp')"
  by (cases sp') (simp_all add: buildEnhancedPrompt_def Let_def)

text \<open>
  Claim C3, as amended.  The output of the prompt composer always starts with the exact
  base prompt.  When at least one of style, colorScheme and mood is a non-empty string or
  modifiers is a non-empty array, the output is the base prompt, then \<open>", "\<close>, then the
  comma-joined clause list in the fixed order \<open>in {style} style\<close>,
  \<open>with {colorScheme} color scheme\<close>, \<open>{mood} mood\<close>, then every modifier verbatim,
  where absent and empty fields are skipped.
\<close>

theorem buildEnhancedPrompt_clause_list:
  "prefix p (buildEnhancedPrompt p sp') \<and>
   (someFieldNonEmpty sp \<longrightarrow>
      buildEnhancedPrompt p (Some sp) = p @ '', '' @ commaJoined (clausesWhenNonEmpty sp))"
proof -
  have a: "clausesWhenNonEmpty sp \<noteq> [] \<longleftrightarrow> someFieldNonEmpty sp"
    using clauses_empty_iff [of sp] by blast
  show ?thesis
    using a buildEnhancedPrompt_prefix [of p sp']
    by (simp add: buildEnhancedPrompt_def Let_def styleModifiersOf_clauses join_commaJoined)
qed

text \<open>The example of the specification: \<open>Build("a cat", {style: "realistic", mood: "calm"})\<close>.\<close>

theorem buildEnhancedPrompt_clause_list_witness:
  "someFieldNonEmpty (emptyStyleParams\<lparr>style := Some ''realistic'', mood := Some ''calm''\<rparr>) \<and>
   buildEnhancedPrompt ''a cat''
       (Some (emptyStyleParams\<lparr>style := Some ''realistic'', mood := Some ''calm''\<rparr>))
     = ''a cat, in realistic style, calm mood''"
proof -
  let ?sp = "emptyStyleParams\<lparr>style := Some ''realistic'', mood := Some ''calm''\<rparr>"
  have h: "someFieldNonEmpty ?sp"
    by (simp add: someFieldNonEmpty_def nonEmptyField_def emptyStyleParams_def)
  have c: "commaJoined (clausesWhenNonEmpty ?sp) = ''in realistic style, calm mood''"
    by (simp add: commaJoined_def clausesWhenNonEmpty_def nonEmptyField_def
          emptyStyleParams_def)
  from buildEnhancedPrompt_clause_list [of "''a cat''" None ?sp] h c show ?thesis by simp
qed

text \<open>
  Claim C3 as worded fails for a field that is set to the empty string: with
  \<open>{style: ""}\<close> a style field is set, so the worded rule appends the clause
  \<open>in  style\<close>, but the truthiness test of the code skips the field and the prompt is
  returned unchanged.
\<close>

theorem buildEnhancedPrompt_empty_style_counterexample:
  "someFieldSet (emptyStyleParams\<lparr>style := Some ''''\<rparr>) \<and>
   buildEnhancedPrompt ''a cat'' (Some (emptyStyleParams\<lparr>style := Some ''''\<rparr>)) = ''a cat'' \<and>
   ''a cat'' @ '', '' @ commaJoined (clausesWhenSet (emptyStyleParams\<lparr>style := Some ''''\<rparr>))
      = ''a cat, in  style''"
  by (simp add: someFieldSet_def emptyStyleParams_def buildEnhancedPrompt_def
       styleModifiersOf_def pushStyle_def pushColorScheme_def pushMood_def pushModifiers_def
       truthy_def commaJoined_def clausesWhenSet_def)

text \<open>
  Claim C8.  \<open>Build(p, undefined) = p\<close> and \<open>Build(p, {}) = p\<close>; whenever the clause
  list built from the style parameters is empty the output is the unmodified base prompt,
  and the clause list is empty when every individual field is absent.
\<close>

theorem buildEnhancedPrompt_unchanged:
  "buildEnhancedPrompt p None = p \<and>
   buildEnhancedPrompt p (Some emptyStyleParams) = p \<and>
   (styleModifiersOf sp = [] \<longrightarrow> buildEnhancedPrompt p (Some sp) = p) \<and>
   (style sp = None \<and> colorScheme sp = None \<and> mood sp = None \<and> modifiers sp = None
      \<longrightarrow> styleModifiersOf sp = [])"
  by (simp add: buildEnhancedPrompt_def emptyStyleParams_def styleModifiersOf_def
       pushStyle_def pushColorScheme_def pushMood_def pushModifiers_def truthy_def)

theorem buildEnhancedPrompt_unchanged_witness:
  "styleModifiersOf (emptyStyleParams\<lparr>quality := Some high\<rparr>) = [] \<and>
   buildEnhancedPrompt ''sunset'' (Some (emptyStyleParams\<lparr>quality := Some high\<rparr>)) = ''sunset''"
proof -
  let ?sp = "emptyStyleParams\<lparr>quality := Some high\<rparr>"
  have h: "style ?sp = None \<and> colorScheme ?sp = None \<and> mood ?sp = None \<and> modifiers ?sp = None"
    by (simp add: emptyStyleParams_def)
  from buildEnhancedPrompt_unchanged [of "''sunset''" ?sp] h show ?thesis by blast
qed

section \<open>Properties of the daily-limit check\<close>

lemma findMany_userId:
  "firestoreQueryFault w = None \<Longrightarrow> 0 < n \<Longrightarrow>
   fst (findMany (imagesCollection cfg) ''userId'' uid n w) = Inr (take n (userImages cfg uid w))"
  by (simp add: findMany_def firestoreQuery_def called_def Let_def userImages_def docField_def)

lemma findMany_fault:
  "firestoreQueryFault w = Some e \<Longrightarrow> fst (findMany c f v n w) = Inl e"
  by (simp add: findMany_def firestoreQuery_def called_def Let_def)

lemma findMany_world:
  "snd (findMany c f v n w) =
     (case firestoreQueryFault w of
        None \<Rightarrow> called (FirestoreQuery c f v (if n \<noteq> 0 then Some n else None)) w
      | Some e \<Rightarrow> logger Err (''Failed to find documents in '' @ c) (Some e)
                   (called (FirestoreQuery c f v (if n \<noteq> 0 then Some n else None)) w))"
  by (simp add: findMany_def firestoreQuery_def called_def logger_def Let_def split: option.splits)

text \<open>
  When the read succeeds, the verdict is taken on the first \<open>limit + 1\<close> records of the
  user in the store's order, not on all of them.
\<close>

lemma hasReachedDailyLimit_window:
  assumes "firestoreQueryFault w = None"
  shows "fst (hasReachedDailyLimit cfg uid w) =
           (maxImagesPerUserPerDay cfg \<le>
              length (filter (createdToday w)
                        (take (maxImagesPerUserPerDay cfg + 1) (userImages cfg uid w))))"
proof -
  have "fst (findMany (imagesCollection cfg) ''userId'' uid (maxImagesPerUserPerDay cfg + 1) w)
          = Inr (take (maxImagesPerUserPerDay cfg + 1) (userImages cfg uid w))"
    using assms by (intro findMany_userId) simp_all
  then show ?thesis
    by (cases "findMany (imagesCollection cfg) ''userId'' uid (maxImagesPerUserPerDay cfg + 1) w")
       (simp add: hasReachedDailyLimit_def Let_def createdToday_def [abs_def])
qed

lemma hasReachedDailyLimit_fault:
  assumes "firestoreQueryFault w = Some e"
  shows "fst (hasReachedDailyLimit cfg uid w) = False"
  using findMany_fault [OF assms, of "imagesCollection cfg" "''userId''" uid
          "maxImagesPerUserPerDay cfg + 1"]
  by (cases "findMany (imagesCollection cfg) ''userId'' uid (maxImagesPerUserPerDay cfg + 1) w")
     (simp add: hasReachedDailyLimit_def Let_def)

lemma length_filter_take_le: "length (filter P (take n xs)) \<le> length (filter P xs)"
proof -
  have "filter P xs = filter P (take n xs) @ filter P (drop n xs)"
    by (metis append_take_drop_id filter_append)
  then have "length (filter P xs) = length (filter P (take n xs)) + length (filter P (drop n xs))"
    by simp
  then show ?thesis by simp
qed

text \<open>A user with fewer records today than the limit is never reported as having reached it.\<close>

lemma hasReachedDailyLimit_below:
  assumes "length (recordsToday cfg uid w) < maxImagesPerUserPerDay cfg"
  shows "\<not> fst (hasReachedDailyLimit cfg uid w)"
proof (cases "firestoreQueryFault w")
  case None
  from hasReachedDailyLimit_window [OF None, of cfg uid]
       length_filter_take_le [of "createdToday w" "maxImagesPerUserPerDay cfg + 1"
         "userImages cfg uid w"]
       assms
  show ?thesis by (simp add: recordsToday_def)
next
  case (Some e)
  from hasReachedDailyLimit_fault [OF Some] show ?thesis by simp
qed

text \<open>The verdict is exact for a user who has at most \<open>limit + 1\<close> records in all.\<close>

lemma hasReachedDailyLimit_exact:
  assumes "firestoreQueryFault w = None"
      and "length (userImages cfg uid w) \<le> maxImagesPerUserPerDay cfg + 1"
  shows "fst (hasReachedDailyLimit cfg uid w) =
           (maxImagesPerUserPerDay cfg \<le> length (recordsToday cfg uid w))"
  using hasReachedDailyLimit_window [OF assms(1), of cfg uid] assms(2)
  by (simp add: recordsToday_def)

text \<open>
  Whatever the limit: once \<open>limit + 1\<close> older records of the user come first in the
  store's order, the check answers "not reached", however many records follow.
\<close>

lemma hasReachedDailyLimit_undercount:
  assumes "firestoreQueryFault w = None"
      and "0 < maxImagesPerUserPerDay cfg"
      and "userImages cfg uid w = olds @ rest"
      and "length olds = maxImagesPerUserPerDay cfg + 1"
      and "\<forall>img \<in> set olds. \<not> createdToday w img"
  shows "\<not> fst (hasReachedDailyLimit cfg uid w)"
  using hasReachedDailyLimit_window [OF assms(1), of cfg uid] assms(2-5)
  by simp

text \<open>
  Claim C4 at a failing input.  With a daily limit of 2, Alice has exactly two records
  created today, and the read succeeds; but three older records of hers come first in the
  store, the query returns those three, none passes the date filter, and the check
  answers that the limit is not reached.
\<close>

theorem hasReachedDailyLimit_older_records_first:
  "firestoreQueryFault aliceWorld = None \<and>
   length (recordsToday exampleConfig ''alice'' aliceWorld)
     = maxImagesPerUserPerDay exampleConfig \<and>
   fst (hasReachedDailyLimit exampleConfig ''alice'' aliceWorld) = False"
  by (simp add: hasReachedDailyLimit_def findMany_def firestoreQuery_def called_def logger_def
        Let_def recordsToday_def userImages_def createdToday_def docField_def
        aliceWorld_def quietWorld_def exampleConfig_def aliceStore_def aliceDoc_def
        failedDoc_def)

text \<open>
  Claim C6.  When the read of the record store fails during the daily-limit check, the
  check answers "not reached"; the store is left as it was and the failure is logged.
\<close>

theorem hasReachedDailyLimit_fails_open:
  "firestoreQueryFault w = Some e \<Longrightarrow>
     fst (hasReachedDailyLimit cfg uid w) = False \<and>
     firestore (snd (hasReachedDailyLimit cfg uid w)) = firestore w \<and>
     last (logs (snd (hasReachedDailyLimit cfg uid w)))
       = (Err, ''Failed to check daily limit'', Some e)"
  by (simp add: hasReachedDailyLimit_def findMany_def firestoreQuery_def called_def logger_def
        Let_def)

theorem hasReachedDailyLimit_fails_open_witness:
  "firestoreQueryFault (aliceTodayWorld\<lparr>firestoreQueryFault := Some (Error ''14 UNAVAILABLE'')\<rparr>)
      = Some (Error ''14 UNAVAILABLE'') \<and>
   fst (hasReachedDailyLimit exampleConfig ''alice''
          (aliceTodayWorld\<lparr>firestoreQueryFault := Some (Error ''14 UNAVAILABLE'')\<rparr>)) = False"
proof -
  have h: "firestoreQueryFault
             (aliceTodayWorld\<lparr>firestoreQueryFault := Some (Error ''14 UNAVAILABLE'')\<rparr>)
      = Some (Error ''14 UNAVAILABLE'')" by simp
  from hasReachedDailyLimit_fails_open [OF h, of exampleConfig "''alice''"] h
  show ?thesis by simp
qed

section \<open>Properties of the request handlers\<close>

lemma hasReachedDailyLimit_frame:
  "firestore (snd (hasReachedDailyLimit cfg uid w)) = firestore w \<and>
   gcs (snd (hasReachedDailyLimit cfg uid w)) = gcs w \<and>
   uuidsDrawn (snd (hasReachedDailyLimit cfg uid w)) = uuidsDrawn w \<and>
   calls (snd (hasReachedDailyLimit cfg uid w)) =
     calls w @ [FirestoreQuery (imagesCollection cfg) ''userId'' uid
                  (Some (maxImagesPerUserPerDay cfg + 1))]"
  using findMany_world [of "imagesCollection cfg" "''userId''" uid
          "maxImagesPerUserPerDay cfg + 1" w]
  by (cases "findMany (imagesCollection cfg) ''userId'' uid (maxImagesPerUserPerDay cfg + 1) w")
     (auto simp add: hasReachedDailyLimit_def Let_def logger_def called_def
           split: sum.splits option.splits)

lemma hasReachedDailyLimit_logger:
  "fst (hasReachedDailyLimit cfg uid (logger l m d w)) = fst (hasReachedDailyLimit cfg uid w)"
  by (simp add: hasReachedDailyLimit_def findMany_def firestoreQuery_def called_def logger_def
        Let_def split: option.splits)

text \<open>
  What the handler does once the daily-limit check has answered "reached", for an
  authenticated request with a non-blank prompt.
\<close>

lemma quota_rejection_on_verdict:
  assumes "reqUserId req = Some uid" and "uid \<noteq> []"
      and "bodyPrompt req = Some p" and "trim p \<noteq> []"
      and "fst (hasReachedDailyLimit cfg uid w)"
  shows "fst (imageController_generateImage cfg req w) =
           respond 429 ''Daily image generation limit reached. Please try again tomorrow.'' \<and>
         firestore (snd (imageController_generateImage cfg req w)) = firestore w \<and>
         gcs (snd (imageController_generateImage cfg req w)) = gcs w \<and>
         uuidsDrawn (snd (imageController_generateImage cfg req w)) = uuidsDrawn w \<and>
         calls (snd (imageController_generateImage cfg req w)) =
           calls w @ [FirestoreQuery (imagesCollection cfg) ''userId'' uid
                        (Some (maxImagesPerUserPerDay cfg + 1))]"
proof -
  let ?w1 = "logger Info ''Image generation request received'' None w"
  obtain b w2 where h: "hasReachedDailyLimit cfg uid ?w1 = (b, w2)"
    by (cases "hasReachedDailyLimit cfg uid ?w1")
  from h assms(5) have b: "b" using hasReachedDailyLimit_logger [of cfg uid Info _ None w]
    by (metis fst_conv)
  from h hasReachedDailyLimit_frame [of cfg uid ?w1]
  have fr: "firestore w2 = firestore w \<and> gcs w2 = gcs w \<and> uuidsDrawn w2 = uuidsDrawn w \<and>
        calls w2 = calls w @ [FirestoreQuery (imagesCollection cfg) ''userId'' uid
                        (Some (maxImagesPerUserPerDay cfg + 1))]"
    by (simp add: logger_def)
  from assms(1-4) h b fr show ?thesis
    by (simp add: imageController_generateImage_def noUserId_def Let_def logger_def)
qed

text \<open>
  Claim C10.  The handler returns a record only if that record is stored under the
  requested id and its \<open>userId\<close> is the caller's id.  For an authenticated caller and a
  successful read: no record under the id gives 404 (not found); a record of another user
  gives 403 (forbidden) without the record; the caller's own record is returned.
\<close>

theorem getImageById_ownership:
  "(body (fst (getImageById req w)) = Found i d \<longrightarrow>
      map_of (firestore w) (''images'', paramImageId req) = Some d \<and>
      reqUserId req = Some (userId d) \<and> i = paramImageId req) \<and>
   (reqUserId req = Some caller \<and> caller \<noteq> [] \<and> firestoreGetFault w = None \<longrightarrow>
      (case map_of (firestore w) (''images'', paramImageId req) of
         None \<Rightarrow> fst (getImageById req w) = respond 404 ''Image not found''
       | Some d' \<Rightarrow>
           if userId d' = caller
           then fst (getImageById req w) =
                  \<lparr>statusCode = 200, body = Found (paramImageId req) d'\<rparr>
           else fst (getImageById req w) =
                  respond 403 ''Forbidden. You do not have access to this image.''))"
  by (auto simp add: getImageById_def findById_def firestoreGet_def called_def logger_def
        noUserId_def respond_def Let_def split: option.splits if_splits)

text \<open>Bob and Alice ask for Alice's record \<open>a1\<close>; Alice asks for it in an empty store.\<close>

theorem getImageById_ownership_witness:
  "fst (getImageById (sunsetRequest ''bob'') aliceWorld) =
     respond 403 ''Forbidden. You do not have access to this image.'' \<and>
   fst (getImageById (sunsetRequest ''alice'') aliceWorld) =
     \<lparr>statusCode = 200, body = Found ''a1'' (aliceDoc 100)\<rparr> \<and>
   fst (getImageById (sunsetRequest ''alice'') quietWorld) = respond 404 ''Image not found''"
proof -
  have m: "map_of (firestore aliceWorld) (''images'', ''a1'') = Some (aliceDoc 100)"
    by (simp add: aliceWorld_def quietWorld_def aliceStore_def)
  have m0: "map_of (firestore quietWorld) (''images'', ''a1'') = None"
    by (simp add: quietWorld_def)
  have u: "userId (aliceDoc 100) = ''alice''" by (simp add: aliceDoc_def failedDoc_def)
  have g: "firestoreGetFault aliceWorld = None" "firestoreGetFault quietWorld = None"
    by (simp_all add: aliceWorld_def quietWorld_def)
  have r: "reqUserId (sunsetRequest c) = Some c" "paramImageId (sunsetRequest c) = ''a1''" for c
    by (simp_all add: sunsetRequest_def)
  from getImageById_ownership [where req = "sunsetRequest ''bob''" and w = aliceWorld
         and caller = "''bob''" and i = "''a1''" and d = "aliceDoc 100"] m u g r
  have a: "fst (getImageById (sunsetRequest ''bob'') aliceWorld) =
     respond 403 ''Forbidden. You do not have access to this image.''" by simp
  from getImageById_ownership [where req = "sunsetRequest ''alice''" and w = aliceWorld
         and caller = "''alice''" and i = "''a1''" and d = "aliceDoc 100"] m u g r
  have b: "fst (getImageById (sunsetRequest ''alice'') aliceWorld) =
     \<lparr>statusCode = 200, body = Found ''a1'' (aliceDoc 100)\<rparr>" by simp
  from getImageById_ownership [where req = "sunsetRequest ''alice''" and w = quietWorld
         and caller = "''alice''" and i = "''a1''" and d = "aliceDoc 100"] m0 g r
  have c: "fst (getImageById (sunsetRequest ''alice'') quietWorld) = respond 404 ''Image not found''"
    by simp
  from a b c show ?thesis by simp
qed

section \<open>Properties of the upload\<close>

subsection \<open>The outcome of an upload\<close>

lemma fileExtensionOf_generated: "fileExtensionOf (generatedFileName i) = ''.png''"
  by (simp add: fileExtensionOf_def generatedFileName_def extname_def lastSegment_def Let_def)

lemma uploadFails_uuidv4 [simp]: "uploadFails (snd (uuidv4 w)) = uploadFails w"
  by (simp add: uploadFails_def uuidv4_def)

lemmas upload_unfold = uploadBase64Image_def uploadFile_def saveAndPublish_def gcsSave_def
  gcsMakePublic_def gcsGetMetadata_def called_def logger_def uuidv4_def Let_def

lemma uploadBase64Image_fst:
  "fst (uploadBase64Image cfg d fileName uid md w) =
     (if uploadFails w then Inl (Error ''Base64 image upload failed'')
      else Inr \<lparr>publicUrl = publicUrlBase cfg @ userImagePath uid (nextUuid w @ fileExtensionOf fileName),
                bucket = bucketName cfg,
                path = userImagePath uid (nextUuid w @ fileExtensionOf fileName),
                sizeBytes = length (bufferFromBase64 (snd (splitBase64Data d))),
                mimeType = fst (splitBase64Data d)\<rparr>)"
  by (cases "splitBase64Data d")
     (simp add: upload_unfold nextUuid_def uploadFails_def AList.update_conv'
        split: option.splits)

lemma uploadBase64Image_frame:
  "firestore (snd (uploadBase64Image cfg d fileName uid md w)) = firestore w \<and>
   firestoreSetFaults (snd (uploadBase64Image cfg d fileName uid md w)) = firestoreSetFaults w \<and>
   now (snd (uploadBase64Image cfg d fileName uid md w)) = now w \<and>
   documentWrites (snd (uploadBase64Image cfg d fileName uid md w)) = documentWrites w"
  by (cases "splitBase64Data d")
     (simp add: upload_unfold documentWrites_def isFirestoreSet_def AList.update_conv'
        split: option.splits)

lemma uploadBase64Image_stored:
  "\<not> uploadFails w \<Longrightarrow>
   storedBytes (snd (uploadBase64Image cfg d fileName uid md w))
       (userImagePath uid (nextUuid w @ fileExtensionOf fileName))
     = Some (bufferFromBase64 (snd (splitBase64Data d)))"
  by (cases "splitBase64Data d")
     (simp add: upload_unfold nextUuid_def uploadFails_def storedBytes_def AList.update_conv'
        split: option.splits)

subsection \<open>Decoding of the upload's input\<close>

lemma splitBase64Data_jpeg:
  "splitBase64Data ''data:image/jpeg;base64,AAAA'' = (''image/jpeg'', ''AAAA'')"
  by (simp add: splitBase64Data_def matchDataUrl_def lineTerminator_def)

lemma splitBase64Data_raw:
  "take 5 s \<noteq> ''data:'' \<Longrightarrow> splitBase64Data s = (''image/png'', s)"
  by (simp add: splitBase64Data_def)

lemma bufferFromBase64_AAAA: "bufferFromBase64 ''AAAA'' = [0, 0, 0]"
  by (simp add: bufferFromBase64_def List.map_filter_def unbase64_def)

lemma uploadFile_Inr:
  assumes "uploadFile cfg buffer fileName mime uid md w = (Inr r, w')"
  shows "mimeType r = mime \<and> sizeBytes r = length buffer \<and>
         storedBytes w' (path r) = Some buffer \<and> storedContentType w' (path r) = Some mime"
  using assms
  by (auto simp add: uploadFile_def saveAndPublish_def gcsSave_def gcsMakePublic_def
        gcsGetMetadata_def uuidv4_def logger_def called_def Let_def storedBytes_def
        storedContentType_def AList.update_conv'
      split: option.splits sum.splits prod.splits)

lemma uploadBase64Image_Inr:
  assumes "uploadBase64Image cfg d fileName uid md w = (Inr r, w')"
  shows "mimeType r = fst (splitBase64Data d) \<and>
         storedBytes w' (path r) = Some (bufferFromBase64 (snd (splitBase64Data d))) \<and>
         storedContentType w' (path r) = Some (fst (splitBase64Data d))"
proof -
  obtain m c where mc: "splitBase64Data d = (m, c)" by (cases "splitBase64Data d")
  from assms mc have "uploadFile cfg (bufferFromBase64 c) fileName m uid md w = (Inr r, w')"
    by (auto simp add: uploadBase64Image_def Let_def split: sum.splits prod.splits)
  from uploadFile_Inr [OF this] mc show ?thesis by simp
qed

text \<open>
  Claim C7.  For the input \<open>data:image/jpeg;base64,AAAA\<close> the upload extracts the MIME
  type \<open>image/jpeg\<close> and the Base64 text \<open>AAAA\<close>, whose decoding is three zero bytes;
  a successful upload stores exactly these bytes under this content type.  For every
  input that does not start with \<open>data:\<close> the whole input is decoded as Base64 and the
  MIME type is \<open>image/png\<close>.
\<close>

theorem uploadBase64Image_decoding:
  "splitBase64Data ''data:image/jpeg;base64,AAAA'' = (''image/jpeg'', ''AAAA'') \<and>
   bufferFromBase64 ''AAAA'' = [0, 0, 0] \<and>
   (uploadBase64Image cfg ''data:image/jpeg;base64,AAAA'' fileName uid md w = (Inr r, w') \<longrightarrow>
      mimeType r = ''image/jpeg'' \<and> storedContentType w' (path r) = Some ''image/jpeg'' \<and>
      storedBytes w' (path r) = Some [0, 0, 0]) \<and>
   (take 5 s \<noteq> ''data:'' \<longrightarrow>
      splitBase64Data s = (''image/png'', s) \<and>
      (uploadBase64Image cfg s fileName uid md w = (Inr r, w') \<longrightarrow>
         mimeType r = ''image/png'' \<and> storedContentType w' (path r) = Some ''image/png'' \<and>
         storedBytes w' (path r) = Some (bufferFromBase64 s)))"
proof -
  have a: "uploadBase64Image cfg ''data:image/jpeg;base64,AAAA'' fileName uid md w = (Inr r, w') \<Longrightarrow>
      mimeType r = ''image/jpeg'' \<and> storedContentType w' (path r) = Some ''image/jpeg'' \<and>
      storedBytes w' (path r) = Some [0, 0, 0]"
    using uploadBase64Image_Inr [of cfg "''data:image/jpeg;base64,AAAA''" fileName uid md w r w']
    by (simp add: splitBase64Data_jpeg bufferFromBase64_AAAA)
  have b: "take 5 s \<noteq> ''data:'' \<Longrightarrow> uploadBase64Image cfg s fileName uid md w = (Inr r, w') \<Longrightarrow>
         mimeType r = ''image/png'' \<and> storedContentType w' (path r) = Some ''image/png'' \<and>
         storedBytes w' (path r) = Some (bufferFromBase64 s)"
    using uploadBase64Image_Inr [of cfg s fileName uid md w r w']
    by (simp add: splitBase64Data_raw)
  from a b show ?thesis
    by (simp add: splitBase64Data_jpeg bufferFromBase64_AAAA splitBase64Data_raw)
qed

lemma fileExtensionOf_cat: "fileExtensionOf ''cat.png'' = ''.png''"
  by (simp add: fileExtensionOf_def extname_def lastSegment_def Let_def)

lemma fileExtensionOf_jpg: "fileExtensionOf ''cat.jpg'' = ''.jpg''"
  by (simp add: fileExtensionOf_def extname_def lastSegment_def Let_def)

text \<open>
  A raw Base64 input and a JPEG data URL, each uploaded in the quiet world.
\<close>

theorem uploadBase64Image_decoding_witness:
  "take 5 ''AAAA'' \<noteq> ''data:'' \<and>
   fst (uploadBase64Image exampleConfig ''AAAA'' ''cat.png'' ''alice'' None quietWorld) =
     Inr \<lparr>publicUrl = ''https://storage.googleapis.com/pixology-images/users/alice/images/uuid-a.png'',
          bucket = ''pixology-images'', path = ''users/alice/images/uuid-a.png'', sizeBytes = 3,
          mimeType = ''image/png''\<rparr> \<and>
   storedBytes (snd (uploadBase64Image exampleConfig ''AAAA'' ''cat.png'' ''alice'' None quietWorld))
     ''users/alice/images/uuid-a.png'' = Some [0, 0, 0] \<and>
   fst (uploadBase64Image exampleConfig ''data:image/jpeg;base64,AAAA'' ''cat.jpg'' ''alice'' None
          quietWorld) =
     Inr \<lparr>publicUrl = ''https://storage.googleapis.com/pixology-images/users/alice/images/uuid-a.jpg'',
          bucket = ''pixology-images'', path = ''users/alice/images/uuid-a.jpg'', sizeBytes = 3,
          mimeType = ''image/jpeg''\<rparr> \<and>
   storedBytes (snd (uploadBase64Image exampleConfig ''data:image/jpeg;base64,AAAA'' ''cat.jpg''
                       ''alice'' None quietWorld))
     ''users/alice/images/uuid-a.jpg'' = Some [0, 0, 0] \<and>
   storedContentType (snd (uploadBase64Image exampleConfig ''data:image/jpeg;base64,AAAA''
                             ''cat.jpg'' ''alice'' None quietWorld))
     ''users/alice/images/uuid-a.jpg'' = Some ''image/jpeg''"
proof -
  let ?U = "uploadBase64Image exampleConfig ''AAAA'' ''cat.png'' ''alice'' None quietWorld"
  let ?r = "\<lparr>publicUrl = ''https://storage.googleapis.com/pixology-images/users/alice/images/uuid-a.png'',
          bucket = ''pixology-images'', path = ''users/alice/images/uuid-a.png'', sizeBytes = 3,
          mimeType = ''image/png''\<rparr>"
  let ?V = "uploadBase64Image exampleConfig ''data:image/jpeg;base64,AAAA'' ''cat.jpg'' ''alice''
              None quietWorld"
  let ?q = "\<lparr>publicUrl = ''https://storage.googleapis.com/pixology-images/users/alice/images/uuid-a.jpg'',
          bucket = ''pixology-images'', path = ''users/alice/images/uuid-a.jpg'', sizeBytes = 3,
          mimeType = ''image/jpeg''\<rparr>"
  have h: "take 5 ''AAAA'' \<noteq> ''data:''" by simp
  have ev: "fst ?U = Inr ?r"
    by (simp add: uploadFails_def quietWorld_def uploadBase64Image_fst nextUuid_def
          fileExtensionOf_cat userImagePath_def exampleConfig_def splitBase64Data_raw
          bufferFromBase64_AAAA)
  then have eq: "?U = (Inr ?r, snd ?U)" by (simp add: prod_eq_iff)
  have ev': "fst ?V = Inr ?q"
    by (simp add: uploadFails_def quietWorld_def uploadBase64Image_fst nextUuid_def
          fileExtensionOf_jpg userImagePath_def exampleConfig_def splitBase64Data_jpeg
          bufferFromBase64_AAAA)
  then have eq': "?V = (Inr ?q, snd ?V)" by (simp add: prod_eq_iff)
  note T = uploadBase64Image_decoding [where cfg = exampleConfig and fileName = "''cat.png''"
      and uid = "''alice''" and md = None and w = quietWorld and r = ?r and w' = "snd ?U"
      and s = "''AAAA''"]
  note T4 = T [THEN conjunct2, THEN conjunct2, THEN conjunct2, THEN mp, OF h,
                THEN conjunct2, THEN mp, OF eq]
  have st: "storedBytes (snd ?U) (path ?r) = Some (bufferFromBase64 ''AAAA'')"
    by (rule T4 [THEN conjunct2, THEN conjunct2])
  have z: "bufferFromBase64 ''AAAA'' = [0, 0, 0]"
    by (rule T [THEN conjunct2, THEN conjunct1])
  from st z have a: "storedBytes (snd ?U) ''users/alice/images/uuid-a.png'' = Some [0, 0, 0]"
    by simp
  note S = uploadBase64Image_decoding [where cfg = exampleConfig and fileName = "''cat.jpg''"
      and uid = "''alice''" and md = None and w = quietWorld and r = ?q and w' = "snd ?V"
      and s = "''AAAA''"]
  note S3 = S [THEN conjunct2, THEN conjunct2, THEN conjunct1, THEN mp, OF eq']
  from S3 have b: "storedBytes (snd ?V) ''users/alice/images/uuid-a.jpg'' = Some [0, 0, 0]"
      and c: "storedContentType (snd ?V) ''users/alice/images/uuid-a.jpg'' = Some ''image/jpeg''"
    by simp_all
  from h ev a ev' b c show ?thesis by simp
qed

section \<open>Properties of a generation attempt\<close>

subsection \<open>Reads through the logger and the call trace\<close>

lemma logger_sel [simp]:
  "now (logger l m d w) = now w"
  "localMidnight (logger l m d w) = localMidnight w"
  "uuids (logger l m d w) = uuids w"
  "uuidsDrawn (logger l m d w) = uuidsDrawn w"
  "firestore (logger l m d w) = firestore w"
  "gcs (logger l m d w) = gcs w"
  "geminiOutcome (logger l m d w) = geminiOutcome w"
  "gcsSaveFault (logger l m d w) = gcsSaveFault w"
  "gcsMakePublicFault (logger l m d w) = gcsMakePublicFault w"
  "gcsGetMetadataFault (logger l m d w) = gcsGetMetadataFault w"
  "firestoreGetFault (logger l m d w) = firestoreGetFault w"
  "firestoreQueryFault (logger l m d w) = firestoreQueryFault w"
  "firestoreSetFaults (logger l m d w) = firestoreSetFaults w"
  "calls (logger l m d w) = calls w"
  "logs (logger l m d w) = logs w @ [(l, m, d)]"
  by (simp_all add: logger_def)

lemma called_sel [simp]:
  "now (called c w) = now w"
  "localMidnight (called c w) = localMidnight w"
  "uuids (called c w) = uuids w"
  "uuidsDrawn (called c w) = uuidsDrawn w"
  "firestore (called c w) = firestore w"
  "gcs (called c w) = gcs w"
  "geminiOutcome (called c w) = geminiOutcome w"
  "gcsSaveFault (called c w) = gcsSaveFault w"
  "gcsMakePublicFault (called c w) = gcsMakePublicFault w"
  "gcsGetMetadataFault (called c w) = gcsGetMetadataFault w"
  "firestoreGetFault (called c w) = firestoreGetFault w"
  "firestoreQueryFault (called c w) = firestoreQueryFault w"
  "firestoreSetFaults (called c w) = firestoreSetFaults w"
  "calls (called c w) = calls w @ [c]"
  "logs (called c w) = logs w"
  by (simp_all add: called_def)

lemma derived_sel [simp]:
  "uploadFails (logger l m d w) = uploadFails w"
  "uploadFails (called c w) = uploadFails w"
  "generationFails (logger l m d w) = generationFails w"
  "generationFails (called c w) = generationFails w"
  "nextUuid (logger l m d w) = nextUuid w"
  "nextUuid (called c w) = nextUuid w"
  "documentWrites (logger l m d w) = documentWrites w"
  "documentWrites (called c w) = documentWrites w @ (if isFirestoreSet c then [c] else [])"
  by (simp_all add: uploadFails_def generationFails_def nextUuid_def documentWrites_def)

lemma uploadBase64Image_elim:
  assumes "uploadBase64Image cfg d fileName uid md w = (r, w')"
  shows "r = (if uploadFails w then Inl (Error ''Base64 image upload failed'')
      else Inr \<lparr>publicUrl = publicUrlBase cfg @ userImagePath uid (nextUuid w @ fileExtensionOf fileName),
                bucket = bucketName cfg,
                path = userImagePath uid (nextUuid w @ fileExtensionOf fileName),
                sizeBytes = length (bufferFromBase64 (snd (splitBase64Data d))),
                mimeType = fst (splitBase64Data d)\<rparr>) \<and>
     firestore w' = firestore w \<and> firestoreSetFaults w' = firestoreSetFaults w \<and>
     now w' = now w \<and> documentWrites w' = documentWrites w \<and>
     (\<not> uploadFails w \<longrightarrow>
        storedBytes w' (userImagePath uid (nextUuid w @ fileExtensionOf fileName))
        = Some (bufferFromBase64 (snd (splitBase64Data d))))"
  using uploadBase64Image_fst [of cfg d fileName uid md w]
        uploadBase64Image_frame [of cfg d fileName uid md w]
        uploadBase64Image_stored [of w cfg d fileName uid md]
  unfolding assms by simp

lemma create_elim:
  assumes "create c i docData w = (r, w')"
  shows "now w' = now w \<and> gcs w' = gcs w \<and>
         documentWrites w' = documentWrites w @ [FirestoreSet c i] \<and>
         firestoreSetFaults w' = tl (firestoreSetFaults w) \<and>
         (case firestoreSetFaults w of
            Some e # rest \<Rightarrow> r = Inl e \<and> firestore w' = firestore w
          | _ \<Rightarrow> r = Inr () \<and>
                 firestore w' =
                   AList.update (c, i) (docData\<lparr>createdAt := now w, updatedAt := now w\<rparr>)
                     (firestore w))"
  using assms
  by (auto simp add: create_def firestoreSet_def Let_def isFirestoreSet_def documentWrites_def
        split: list.splits option.splits)

lemma failedDoc_stamp [simp]:
  "(failedDoc uid p sp e t)\<lparr>createdAt := t', updatedAt := t'\<rparr> = failedDoc uid p sp e t'"
  by (simp add: failedDoc_def)

lemma failedDoc_fields [simp]:
  "userId (failedDoc uid p sp e t) = uid"
  "status (failedDoc uid p sp e t) = failed"
  "errorMessage (failedDoc uid p sp e t) = Some (errorMessageOf e)"
  "gcsUrl (failedDoc uid p sp e t) = None"
  "gcsPath (failedDoc uid p sp e t) = None"
  "createdAt (failedDoc uid p sp e t) = t"
  by (simp_all add: failedDoc_def)

lemma generateImage_catch_elim:
  assumes "generateImage_catch cfg i uid p sp e w = (r, w')"
  shows "r = Inl (Error ''Image generation failed'') \<and>
         gcs w' = gcs w \<and>
         documentWrites w' = documentWrites w @ [FirestoreSet (imagesCollection cfg) i] \<and>
         (case firestoreSetFaults w of
            Some dbError # rest \<Rightarrow>
              firestore w' = firestore w \<and>
              last (logs w') = (Err, ''Failed to save error record to database'', Some dbError)
          | _ \<Rightarrow>
              firestore w' =
                AList.update (imagesCollection cfg, i) (failedDoc uid p sp e (now w)) (firestore w))"
proof -
  let ?w1 = "logger Err ''Image generation failed'' (Some e) w"
  obtain r1 w2 where c: "create (imagesCollection cfg) i (failedDoc uid p sp e (now ?w1)) ?w1 = (r1, w2)"
    by (cases "create (imagesCollection cfg) i (failedDoc uid p sp e (now ?w1)) ?w1")
  from create_elim [OF c] assms c show ?thesis
    by (auto simp add: generateImage_catch_def Let_def split: list.splits option.splits sum.splits)
qed

lemma generateImage_try_fails:
  assumes "generationFails w \<or> uploadFails w"
      and "generateImage_try cfg i uid p sp w = (r, w')"
  shows "r = Inl (primaryFailure w) \<and> firestore w' = firestore w \<and>
         firestoreSetFaults w' = firestoreSetFaults w \<and> now w' = now w \<and>
         documentWrites w' = documentWrites w"
  using assms
  by (auto simp add: generateImage_try_def Let_def geminiGenerateContent_def generationFails_def
        primaryFailure_def isFirestoreSet_def
        split: sum.splits prod.splits if_splits dest!: uploadBase64Image_elim)

lemma uuidv4_sel [simp]:
  "fst (uuidv4 w) = attemptId w"
  "now (snd (uuidv4 w)) = now w"
  "firestore (snd (uuidv4 w)) = firestore w"
  "gcs (snd (uuidv4 w)) = gcs w"
  "firestoreSetFaults (snd (uuidv4 w)) = firestoreSetFaults w"
  "calls (snd (uuidv4 w)) = calls w"
  "logs (snd (uuidv4 w)) = logs w"
  "generationFails (snd (uuidv4 w)) = generationFails w"
  "primaryFailure (snd (uuidv4 w)) = primaryFailure w"
  "documentWrites (snd (uuidv4 w)) = documentWrites w"
  "nextUuid (snd (uuidv4 w)) = uuids w (Suc (uuidsDrawn w))"
  by (simp_all add: uuidv4_def attemptId_def nextUuid_def generationFails_def primaryFailure_def
        documentWrites_def)

lemma splitBase64Data_placeholder:
  "splitBase64Data placeholderImageBase64 = (''image/png'', placeholderImageBase64)"
  by (simp add: splitBase64Data_def placeholderImageBase64_def)

lemma storedBytes_cong: "gcs w' = gcs w \<Longrightarrow> storedBytes w' = storedBytes w"
  by (simp add: storedBytes_def fun_eq_iff)

subsection \<open>The success path up to the save\<close>

lemma generateImage_try_reaches_save:
  assumes "\<not> generationFails w" and "\<not> uploadFails w"
      and "generateImage_try cfg i uid p sp w = (r, w')"
  shows "storedBytes w' (userImagePath uid (nextUuid w @ ''.png''))
           = Some (bufferFromBase64 placeholderImageBase64) \<and>
         documentWrites w' = documentWrites w @ [FirestoreSet (imagesCollection cfg) i] \<and>
         now w' = now w \<and> firestoreSetFaults w' = tl (firestoreSetFaults w) \<and>
         (case firestoreSetFaults w of
            Some e # rest \<Rightarrow> r = Inl e \<and> firestore w' = firestore w
          | _ \<Rightarrow> isl r = False)"
proof -
  from assms(1) obtain cands where g: "geminiOutcome w = Inr cands" "hasCandidates cands"
    by (auto simp add: generationFails_def split: sum.splits)
  define w4 where "w4 = logger Warn ''Using placeholder image data extraction - update for production'' None
     (called (GeminiGenerateContent (imageModel cfg) (buildEnhancedPrompt p sp))
        (logger Info ''Enhanced prompt built'' None (logger Info ''Starting image generation'' None w)))"
  obtain ru w5 where U: "uploadBase64Image cfg placeholderImageBase64 (generatedFileName i) uid
                          (Some [(''prompt'', take 100 p), (''imageId'', i)]) w4 = (ru, w5)"
    by (cases "uploadBase64Image cfg placeholderImageBase64 (generatedFileName i) uid
                          (Some [(''prompt'', take 100 p), (''imageId'', i)]) w4")
  have nf: "\<not> uploadFails w4" using assms(2) by (simp add: w4_def)
  from uploadBase64Image_elim [OF U] nf
  obtain res where ru: "ru = Inr res"
    and fr5: "firestore w5 = firestore w4" "firestoreSetFaults w5 = firestoreSetFaults w4"
             "now w5 = now w4" "documentWrites w5 = documentWrites w4"
    and st5: "storedBytes w5 (userImagePath uid (nextUuid w4 @ ''.png''))
                = Some (bufferFromBase64 placeholderImageBase64)"
    by (simp add: fileExtensionOf_generated splitBase64Data_placeholder)
  obtain rc w6 where C: "create (imagesCollection cfg) i
        (completedDoc uid p sp res (effectiveDimensions cfg sp) (now w5)) w5 = (rc, w6)"
    by (cases "create (imagesCollection cfg) i
        (completedDoc uid p sp res (effectiveDimensions cfg sp) (now w5)) w5")
  note ce = create_elim [OF C]
  have t: "generateImage_try cfg i uid p sp w =
             (case rc of Inl e \<Rightarrow> (Inl e, w6)
              | Inr u \<Rightarrow> (Inr \<lparr>imageId = i, imageUrl = publicUrl res,
                                     resDimensions = effectiveDimensions cfg sp,
                                     resFileSize = sizeBytes res,
                                     resPrompt = p, resStyleParams = sp\<rparr>,
                                logger Info ''Image generation completed successfully'' None w6))"
    using g U ru C
    by (simp add: generateImage_try_def Let_def geminiGenerateContent_def w4_def [symmetric])
  have a4: "nextUuid w4 = nextUuid w" "firestore w4 = firestore w"
       "firestoreSetFaults w4 = firestoreSetFaults w" "now w4 = now w"
       "documentWrites w4 = documentWrites w"
    by (simp_all add: w4_def isFirestoreSet_def)
  from ce have "gcs w6 = gcs w5" by simp
  then have s6: "storedBytes w6 = storedBytes w5" by (rule storedBytes_cong)
  have sl: "storedBytes (logger l m d w6) = storedBytes w6" for l m d
    by (rule storedBytes_cong) simp
  from assms(3) t ce fr5 st5 a4 s6 sl show ?thesis
    by (auto split: sum.splits list.splits option.splits)
qed

lemma generateImage_error_generic:
  "fst (generateImage cfg uid p sp w) = Inl e \<Longrightarrow> e = Error ''Image generation failed''"
proof -
  assume a: "fst (generateImage cfg uid p sp w) = Inl e"
  obtain r1 w1 where t: "generateImage_try cfg (attemptId w) uid p sp (snd (uuidv4 w)) = (r1, w1)"
    by (cases "generateImage_try cfg (attemptId w) uid p sp (snd (uuidv4 w))")
  show ?thesis
  proof (cases r1)
    case (Inl e1)
    obtain r2 w2 where c: "generateImage_catch cfg (attemptId w) uid p sp e1 w1 = (r2, w2)"
      by (cases "generateImage_catch cfg (attemptId w) uid p sp e1 w1")
    from generateImage_catch_elim [OF c] a t Inl c show ?thesis
      by (simp add: generateImage_def split_beta)
  next
    case (Inr res)
    with a t show ?thesis by (simp add: generateImage_def split_beta)
  qed
qed

lemma imageController_generateImage_messages:
  "body (fst (imageController_generateImage cfg req w)) = Failure m \<Longrightarrow>
     m \<in> {''User not authenticated'', ''Prompt is required'',
          ''Daily image generation limit reached. Please try again tomorrow.'',
          ''Image generation failed. Please try again.''}"
  by (auto simp add: imageController_generateImage_def respond_def Let_def
        split: if_splits option.splits prod.splits sum.splits)

lemma imageController_generateImage_500:
  "statusCode (fst (imageController_generateImage cfg req w)) = 500 \<Longrightarrow>
     fst (imageController_generateImage cfg req w)
       = respond 500 ''Image generation failed. Please try again.''"
  by (auto simp add: imageController_generateImage_def respond_def Let_def
        split: if_splits option.splits prod.splits sum.splits)

subsection \<open>The example worlds\<close>

lemmas attempt_unfold = generateImage_def generateImage_try_def generateImage_catch_def
  create_def firestoreSet_def geminiGenerateContent_def uploadBase64Image_def uploadFile_def
  saveAndPublish_def gcsSave_def gcsMakePublic_def gcsGetMetadata_def uuidv4_def Let_def
  hasCandidates_def

lemma exampleConfig_sel [simp]:
  "imagesCollection exampleConfig = ''images''"
  "maxImagesPerUserPerDay exampleConfig = 2"
  by (simp_all add: exampleConfig_def)

lemma modelDownWorld_sel:
  "generationFails modelDownWorld"
  "firestoreSetFaults modelDownWorld = [Some (Error ''14 UNAVAILABLE'')]"
  "firestore modelDownWorld = []"
  by (simp_all add: generationFails_def modelDownWorld_def quietWorld_def)

lemma bucketDownWorld_sel:
  "uploadFails bucketDownWorld"
  "firestoreSetFaults bucketDownWorld = []"
  "firestore bucketDownWorld = []"
  "attemptId bucketDownWorld = ''uuid-a''"
  "now bucketDownWorld = 86500000"
  "primaryFailure bucketDownWorld = Error ''Base64 image upload failed''"
  by (simp_all add: uploadFails_def attemptId_def nextUuid_def primaryFailure_def
        hasCandidates_def bucketDownWorld_def quietWorld_def)

lemma storeDownWorld_sel:
  "\<not> generationFails storeDownWorld"
  "\<not> uploadFails storeDownWorld"
  "firestoreSetFaults storeDownWorld = [Some (Error ''14 UNAVAILABLE''), Some (Error ''14 UNAVAILABLE'')]"
  "firestore storeDownWorld = []"
  "artifactPath ''alice'' storeDownWorld = ''users/alice/images/uuid-b.png''"
  by (simp_all add: generationFails_def uploadFails_def hasCandidates_def artifactPath_def
        userImagePath_def storeDownWorld_def quietWorld_def)

subsection \<open>The failure paths\<close>

text \<open>
  Claim C1.  When the generation call or the artifact upload fails, the attempt makes
  exactly one document write, addressed to the id drawn at the start of the attempt, and
  the caller receives the failure of the attempt whatever becomes of that write.  If the
  write succeeds, the record under the attempt's id is the failure record: status
  \<open>failed\<close>, with the message of the primary failure as its error summary.  If the write
  itself throws, the store is unchanged, the secondary failure is logged, and the value
  thrown to the caller is the same.
\<close>

theorem generateImage_failure_record:
  assumes "generationFails w \<or> uploadFails w"
  shows "fst (generateImage cfg uid p sp w) = Inl (Error ''Image generation failed'') \<and>
         documentWrites (snd (generateImage cfg uid p sp w)) =
           documentWrites w @ [FirestoreSet (imagesCollection cfg) (attemptId w)] \<and>
         (case firestoreSetFaults w of
            Some dbError # rest \<Rightarrow>
              firestore (snd (generateImage cfg uid p sp w)) = firestore w \<and>
              last (logs (snd (generateImage cfg uid p sp w))) =
                (Err, ''Failed to save error record to database'', Some dbError)
          | _ \<Rightarrow>
              firestore (snd (generateImage cfg uid p sp w)) =
                AList.update (imagesCollection cfg, attemptId w)
                  (failedDoc uid p sp (primaryFailure w) (now w)) (firestore w)) \<and>
         status (failedDoc uid p sp (primaryFailure w) (now w)) = failed \<and>
         errorMessage (failedDoc uid p sp (primaryFailure w) (now w))
           = Some (errorMessageOf (primaryFailure w))"
proof -
  let ?w0 = "snd (uuidv4 w)"
  obtain r1 w1 where t: "generateImage_try cfg (attemptId w) uid p sp ?w0 = (r1, w1)"
    by (cases "generateImage_try cfg (attemptId w) uid p sp ?w0")
  from assms have f: "generationFails ?w0 \<or> uploadFails ?w0" by simp
  note tf = generateImage_try_fails [OF f t]
  obtain r2 w2 where c: "generateImage_catch cfg (attemptId w) uid p sp (primaryFailure w) w1 = (r2, w2)"
    by (cases "generateImage_catch cfg (attemptId w) uid p sp (primaryFailure w) w1")
  note cf = generateImage_catch_elim [OF c]
  have g: "generateImage cfg uid p sp w = (r2, w2)"
    using t tf c by (simp add: generateImage_def split_beta)
  from tf cf show ?thesis unfolding g
    by (simp split: list.splits option.splits)
qed

text \<open>
  The model call throws and the compensating write throws too; the bucket is down and the
  compensating write succeeds.
\<close>

theorem generateImage_failure_record_witness:
  "generationFails modelDownWorld \<and>
   fst (generateImage exampleConfig ''alice'' ''sunset'' None modelDownWorld)
     = Inl (Error ''Image generation failed'') \<and>
   firestore (snd (generateImage exampleConfig ''alice'' ''sunset'' None modelDownWorld)) = [] \<and>
   uploadFails bucketDownWorld \<and>
   fst (generateImage exampleConfig ''alice'' ''sunset'' None bucketDownWorld)
     = Inl (Error ''Image generation failed'') \<and>
   firestore (snd (generateImage exampleConfig ''alice'' ''sunset'' None bucketDownWorld))
     = [((''images'', ''uuid-a''),
         failedDoc ''alice'' ''sunset'' None (Error ''Base64 image upload failed'') 86500000)]"
proof -
  have hA: "generationFails modelDownWorld \<or> uploadFails modelDownWorld"
    using modelDownWorld_sel(1) by simp
  have hB: "generationFails bucketDownWorld \<or> uploadFails bucketDownWorld"
    using bucketDownWorld_sel(1) by simp
  note A = generateImage_failure_record [OF hA, of exampleConfig "''alice''" "''sunset''" None]
  note B = generateImage_failure_record [OF hB, of exampleConfig "''alice''" "''sunset''" None]
  from A have a: "fst (generateImage exampleConfig ''alice'' ''sunset'' None modelDownWorld)
     = Inl (Error ''Image generation failed'') \<and>
   firestore (snd (generateImage exampleConfig ''alice'' ''sunset'' None modelDownWorld)) = []"
    by (simp add: modelDownWorld_sel)
  from B have b: "fst (generateImage exampleConfig ''alice'' ''sunset'' None bucketDownWorld)
     = Inl (Error ''Image generation failed'') \<and>
   firestore (snd (generateImage exampleConfig ''alice'' ''sunset'' None bucketDownWorld))
     = [((''images'', ''uuid-a''),
         failedDoc ''alice'' ''sunset'' None (Error ''Base64 image upload failed'') 86500000)]"
    by (simp add: bucketDownWorld_sel)
  from a b modelDownWorld_sel(1) bucketDownWorld_sel(1) show ?thesis by simp
qed

text \<open>
  Claim C2, as amended.  When generation and upload succeed and the success-path save
  throws, the caller gets a failure and the uploaded artifact stays in the bucket.  No
  completed record is written.  The compensating write is still attempted under the
  attempt's id: if it throws too, the store is unchanged and the artifact has no record;
  if it succeeds, the attempt's id holds a failure record, which names no artifact.
\<close>

theorem generateImage_save_failure:
  assumes "\<not> generationFails w" and "\<not> uploadFails w"
      and "firestoreSetFaults w = Some e # rest"
  shows "fst (generateImage cfg uid p sp w) = Inl (Error ''Image generation failed'') \<and>
         storedBytes (snd (generateImage cfg uid p sp w)) (artifactPath uid w)
           = Some (bufferFromBase64 placeholderImageBase64) \<and>
         (case rest of
            Some e2 # rest2 \<Rightarrow> firestore (snd (generateImage cfg uid p sp w)) = firestore w
          | _ \<Rightarrow>
              firestore (snd (generateImage cfg uid p sp w)) =
                AList.update (imagesCollection cfg, attemptId w)
                  (failedDoc uid p sp e (now w)) (firestore w)) \<and>
         status (failedDoc uid p sp e (now w)) = failed \<and>
         gcsUrl (failedDoc uid p sp e (now w)) = None \<and>
         gcsPath (failedDoc uid p sp e (now w)) = None"
proof -
  let ?w0 = "snd (uuidv4 w)"
  obtain r1 w1 where t: "generateImage_try cfg (attemptId w) uid p sp ?w0 = (r1, w1)"
    by (cases "generateImage_try cfg (attemptId w) uid p sp ?w0")
  from assms have f: "\<not> generationFails ?w0" "\<not> uploadFails ?w0" by simp_all
  from generateImage_try_reaches_save [OF f t] assms(3)
  have tf: "storedBytes w1 (artifactPath uid w) = Some (bufferFromBase64 placeholderImageBase64)"
       "now w1 = now w" "firestoreSetFaults w1 = rest" "r1 = Inl e" "firestore w1 = firestore w"
    by (simp_all add: artifactPath_def)
  obtain r2 w2 where c: "generateImage_catch cfg (attemptId w) uid p sp e w1 = (r2, w2)"
    by (cases "generateImage_catch cfg (attemptId w) uid p sp e w1")
  note cf = generateImage_catch_elim [OF c]
  have g: "generateImage cfg uid p sp w = (r2, w2)"
    using t tf c by (simp add: generateImage_def split_beta)
  from cf have "gcs w2 = gcs w1" by simp
  then have "storedBytes w2 = storedBytes w1" by (rule storedBytes_cong)
  with tf cf show ?thesis unfolding g
    by (simp split: list.splits option.splits)
qed

text \<open>The store rejects both writes: the artifact is stored and has no record.\<close>

theorem generateImage_save_failure_witness:
  "\<not> generationFails storeDownWorld \<and> \<not> uploadFails storeDownWorld \<and>
   fst (generateImage exampleConfig ''alice'' ''sunset'' None storeDownWorld)
     = Inl (Error ''Image generation failed'') \<and>
   storedBytes (snd (generateImage exampleConfig ''alice'' ''sunset'' None storeDownWorld))
       ''users/alice/images/uuid-b.png''
     = Some (bufferFromBase64 placeholderImageBase64) \<and>
   firestore (snd (generateImage exampleConfig ''alice'' ''sunset'' None storeDownWorld)) = []"
proof -
  note A = generateImage_save_failure [OF storeDownWorld_sel(1) storeDownWorld_sel(2)
             storeDownWorld_sel(3), of exampleConfig "''alice''" "''sunset''" None]
  from A storeDownWorld_sel show ?thesis by simp
qed

text \<open>
  Claim C2 as worded fails when the store rejects the success-path save and accepts the
  compensating write: the attempt fails and its artifact is stored, yet the attempt's id
  does hold a record, the failure record.
\<close>

theorem generateImage_save_failure_counterexample:
  "\<not> generationFails storeFlakyWorld \<and> \<not> uploadFails storeFlakyWorld \<and>
   firestoreSetFaults storeFlakyWorld = [Some (Error ''14 UNAVAILABLE''), None] \<and>
   fst (generateImage exampleConfig ''alice'' ''sunset'' None storeFlakyWorld)
     = Inl (Error ''Image generation failed'') \<and>
   storedBytes (snd (generateImage exampleConfig ''alice'' ''sunset'' None storeFlakyWorld))
       ''users/alice/images/uuid-b.png''
     = Some (bufferFromBase64 placeholderImageBase64) \<and>
   map_of (firestore (snd (generateImage exampleConfig ''alice'' ''sunset'' None storeFlakyWorld)))
       (''images'', attemptId storeFlakyWorld)
     = Some (failedDoc ''alice'' ''sunset'' None (Error ''14 UNAVAILABLE'') 86500000)"
  by (simp add: attempt_unfold splitBase64Data_placeholder fileExtensionOf_generated
        userImagePath_def storedBytes_def storeFlakyWorld_def quietWorld_def exampleConfig_def
        attemptId_def nextUuid_def generationFails_def uploadFails_def)

text \<open>
  Claim C9.  Whatever step of an attempt fails and whatever the raw error was, the value
  the service throws to its caller is the one fixed error \<open>Image generation failed\<close>.
  Every failure body the handler sends carries one of four fixed messages, and every
  answer with status 500 is the same fixed answer; so no raw upstream detail reaches
  the caller.
\<close>

theorem failures_are_generic:
  "(fst (generateImage cfg uid p sp w) = Inl e \<longrightarrow> e = Error ''Image generation failed'') \<and>
   (body (fst (imageController_generateImage cfg req w)) = Failure m \<longrightarrow>
      m \<in> {''User not authenticated'', ''Prompt is required'',
           ''Daily image generation limit reached. Please try again tomorrow.'',
           ''Image generation failed. Please try again.''}) \<and>
   (statusCode (fst (imageController_generateImage cfg req w)) = 500 \<longrightarrow>
      fst (imageController_generateImage cfg req w)
        = respond 500 ''Image generation failed. Please try again.'')"
  using generateImage_error_generic [of cfg uid p sp w e]
        imageController_generateImage_messages [of cfg req w m]
        imageController_generateImage_500 [of cfg req w]
  by blast

text \<open>The model call throws with a detailed message; the caller sees the fixed one.\<close>

theorem failures_are_generic_witness:
  "fst (generateImage exampleConfig ''alice'' ''sunset'' None modelDownWorld)
     = Inl (Error ''Image generation failed'') \<and>
   statusCode (fst (imageController_generateImage exampleConfig (sunsetRequest ''alice'')
                      modelDownWorld)) = 500 \<and>
   fst (imageController_generateImage exampleConfig (sunsetRequest ''alice'') modelDownWorld)
     = respond 500 ''Image generation failed. Please try again.''"
proof -
  define e0 where "e0 = Error ''Image generation failed''"
  have e0: "fst (generateImage exampleConfig ''alice'' ''sunset'' None modelDownWorld) = Inl e0"
    by (simp add: e0_def attempt_unfold modelDownWorld_def quietWorld_def exampleConfig_def)
  have s: "statusCode (fst (imageController_generateImage exampleConfig (sunsetRequest ''alice'')
                      modelDownWorld)) = 500"
    by (simp add: imageController_generateImage_def hasReachedDailyLimit_def findMany_def
          firestoreQuery_def generateImage_def generateImage_try_def generateImage_catch_def
          create_def firestoreSet_def geminiGenerateContent_def uuidv4_def Let_def noUserId_def
          sunsetRequest_def trim_def isWhiteSpace_def modelDownWorld_def quietWorld_def
          exampleConfig_def respond_def docField_def)
  note T = failures_are_generic [where cfg = exampleConfig and uid = "''alice''"
      and p = "''sunset''" and sp = None and w = modelDownWorld and e = e0
      and req = "sunsetRequest ''alice''" and m = "''''"]
  have a: "e0 = Error ''Image generation failed''"
    by (rule T [THEN conjunct1, THEN mp, OF e0])
  have b: "fst (imageController_generateImage exampleConfig (sunsetRequest ''alice'')
                  modelDownWorld)
     = respond 500 ''Image generation failed. Please try again.''"
    by (rule T [THEN conjunct2, THEN conjunct2, THEN mp, OF s])
  from e0 a s b show ?thesis by simp
qed

section \<open>Properties of the quota rejection\<close>

lemma hasReachedDailyLimit_fetched:
  assumes "firestoreQueryFault w = None"
  shows "fst (hasReachedDailyLimit cfg uid w) =
           (maxImagesPerUserPerDay cfg \<le> length (fetchedToday cfg uid w))"
  using hasReachedDailyLimit_window [OF assms, of cfg uid]
  by (simp add: fetchedToday_def fetchedRecords_def)

text \<open>All of a user's records are fetched when there are at most \<open>limit + 1\<close> of them.\<close>

lemma fetchedToday_all:
  "length (userImages cfg uid w) \<le> maxImagesPerUserPerDay cfg + 1 \<Longrightarrow>
     fetchedToday cfg uid w = recordsToday cfg uid w"
  by (simp add: fetchedToday_def fetchedRecords_def recordsToday_def)

text \<open>The records fetched from today are records of today: the user has reached the limit.\<close>

lemma fetchedToday_le_recordsToday:
  "length (fetchedToday cfg uid w) \<le> length (recordsToday cfg uid w)"
  by (simp add: fetchedToday_def fetchedRecords_def recordsToday_def length_filter_take_le)

text \<open>
  Claim C5, as amended.  For a request of an authenticated user with a non-blank prompt:
  when the check's read of the record store succeeds and at least \<open>dailyLimit\<close> of the
  records it fetches were created today (so the user has reached the daily limit; this is
  every such user with at most \<open>dailyLimit + 1\<close> records in all), the handler answers 429
  (quota exceeded); the only call that left the process is the check's own query (no
  generation call, no storage call, no document write), no id is drawn, and the record
  store, its record count and the bucket are unchanged.
\<close>

theorem quota_rejection_no_effects:
  assumes "reqUserId req = Some uid" and "uid \<noteq> []"
      and "bodyPrompt req = Some p" and "trim p \<noteq> []"
      and "firestoreQueryFault w = None"
      and "maxImagesPerUserPerDay cfg \<le> length (fetchedToday cfg uid w)"
  shows "maxImagesPerUserPerDay cfg \<le> length (recordsToday cfg uid w) \<and>
         fst (imageController_generateImage cfg req w) =
           respond 429 ''Daily image generation limit reached. Please try again tomorrow.'' \<and>
         firestore (snd (imageController_generateImage cfg req w)) = firestore w \<and>
         length (firestore (snd (imageController_generateImage cfg req w)))
           = length (firestore w) \<and>
         gcs (snd (imageController_generateImage cfg req w)) = gcs w \<and>
         uuidsDrawn (snd (imageController_generateImage cfg req w)) = uuidsDrawn w \<and>
         calls (snd (imageController_generateImage cfg req w)) =
           calls w @ [FirestoreQuery (imagesCollection cfg) ''userId'' uid
                        (Some (maxImagesPerUserPerDay cfg + 1))]"
proof -
  have v: "fst (hasReachedDailyLimit cfg uid w)"
    using hasReachedDailyLimit_fetched [OF assms(5), of cfg uid] assms(6) by simp
  have r: "maxImagesPerUserPerDay cfg \<le> length (recordsToday cfg uid w)"
    using assms(6) fetchedToday_le_recordsToday [of cfg uid w] by simp
  from quota_rejection_on_verdict [OF assms(1-4) v] r show ?thesis by simp
qed

text \<open>Alice, with two records in all, both of today, and a limit of two, asks for another image.\<close>

theorem quota_rejection_no_effects_witness:
  "trim ''sunset'' \<noteq> [] \<and>
   firestoreQueryFault aliceTodayWorld = None \<and>
   length (fetchedToday exampleConfig ''alice'' aliceTodayWorld) = 2 \<and>
   fst (imageController_generateImage exampleConfig (sunsetRequest ''alice'') aliceTodayWorld) =
     respond 429 ''Daily image generation limit reached. Please try again tomorrow.'' \<and>
   length (firestore (snd (imageController_generateImage exampleConfig (sunsetRequest ''alice'')
                             aliceTodayWorld))) = 2 \<and>
   gcs (snd (imageController_generateImage exampleConfig (sunsetRequest ''alice'')
               aliceTodayWorld)) = [] \<and>
   calls (snd (imageController_generateImage exampleConfig (sunsetRequest ''alice'')
                 aliceTodayWorld)) = [FirestoreQuery ''images'' ''userId'' ''alice'' (Some 3)]"
proof -
  have h1: "reqUserId (sunsetRequest ''alice'') = Some ''alice''" by (simp add: sunsetRequest_def)
  have h2: "''alice'' \<noteq> []" by simp
  have h3: "bodyPrompt (sunsetRequest ''alice'') = Some ''sunset''" by (simp add: sunsetRequest_def)
  have h4: "trim ''sunset'' \<noteq> []" by (simp add: trim_def isWhiteSpace_def)
  have h5: "firestoreQueryFault aliceTodayWorld = None"
    by (simp add: aliceTodayWorld_def quietWorld_def)
  have c: "length (fetchedToday exampleConfig ''alice'' aliceTodayWorld) = 2"
    by (simp add: fetchedToday_def fetchedRecords_def userImages_def createdToday_def
          aliceTodayWorld_def quietWorld_def exampleConfig_def aliceStore_def aliceDoc_def
          failedDoc_def)
  then have h6: "maxImagesPerUserPerDay exampleConfig
                   \<le> length (fetchedToday exampleConfig ''alice'' aliceTodayWorld)"
    by simp
  have f: "length (firestore aliceTodayWorld) = 2" "gcs aliceTodayWorld = []"
          "calls aliceTodayWorld = []"
    by (simp_all add: aliceTodayWorld_def quietWorld_def aliceStore_def)
  from quota_rejection_no_effects [OF h1 h2 h3 h4 h5 h6] h4 h5 c f show ?thesis
    by simp
qed

text \<open>
  Claim C5 as worded fails when the check cannot read the store.  Alice has two records
  today and the limit is two, so she has reached the daily limit; the read throws, the
  check answers "not reached", and the handler goes on: it answers 201, the model and the
  bucket are called, and a third record is written.
\<close>

theorem quota_rejection_unreadable_store_counterexample:
  "length (recordsToday exampleConfig ''alice'' aliceTodayUnreadableWorld)
     = maxImagesPerUserPerDay exampleConfig \<and>
   statusCode (fst (imageController_generateImage exampleConfig (sunsetRequest ''alice'')
                      aliceTodayUnreadableWorld)) = 201 \<and>
   calls (snd (imageController_generateImage exampleConfig (sunsetRequest ''alice'')
                 aliceTodayUnreadableWorld)) =
     [FirestoreQuery ''images'' ''userId'' ''alice'' (Some 3),
      GeminiGenerateContent ''gemini-2.5-flash-image-preview'' ''sunset'',
      GcsSave ''users/alice/images/uuid-b.png'',
      GcsMakePublic ''users/alice/images/uuid-b.png'',
      GcsGetMetadata ''users/alice/images/uuid-b.png'',
      FirestoreSet ''images'' ''uuid-a''] \<and>
   length (firestore aliceTodayUnreadableWorld) = 2 \<and>
   length (firestore (snd (imageController_generateImage exampleConfig (sunsetRequest ''alice'')
                             aliceTodayUnreadableWorld))) = 3"
  by (simp add: imageController_generateImage_def hasReachedDailyLimit_def findMany_def
        firestoreQuery_def attempt_unfold noUserId_def sunsetRequest_def trim_def
        isWhiteSpace_def buildEnhancedPrompt_def splitBase64Data_placeholder
        fileExtensionOf_generated userImagePath_def recordsToday_def userImages_def
        createdToday_def aliceTodayUnreadableWorld_def aliceTodayWorld_def quietWorld_def
        exampleConfig_def aliceStore_def aliceDoc_def)

end
